theory Spec2Isabelle
  imports
    Main
    "HOL-Library.AList"
    "HOL-Library.Multiset"
    "HOL-Library.Char_ord"
    "HOL-Library.List_Lexorder"
begin

section \<open>Results of Go functions\<close>

text \<open>
  A Go call either returns or panics.  A panic carries the printed form of its
  argument.  An \<open>error\<close> result is \<open>None\<close> for \<open>nil\<close> and \<open>Some msg\<close>
  for an error whose \<open>Error()\<close> text is \<open>msg\<close>; a pair \<open>(value, error)\<close> is a
  sum with the error text on the left.
\<close>

datatype 'a outcome = Return 'a | Panic string

type_synonym error = "string option"

section \<open>Package imageset: unprocessed image references\<close>

text \<open>
  \<open>Labels\<close> is a Go map, which may be \<open>nil\<close>: \<open>None\<close> is the nil map and
  \<open>Some m\<close> an allocated one.
\<close>

record UnprocessedImageRef =
  DigestRef :: string
  Tag :: string
  Labels :: "(string \<rightharpoonup> string) option"
  OrigRef :: string

text \<open>
  \<open>value, ok := u.Labels[label]\<close>: reading a nil map or a missing key gives the
  zero value and \<open>false\<close>.
\<close>

definition LabelValue :: "UnprocessedImageRef \<Rightarrow> string \<Rightarrow> string \<times> bool" where
  "LabelValue u label =
     (case Labels u of
        None \<Rightarrow> ('''', False)
      | Some m \<Rightarrow> (case m label of None \<Rightarrow> ('''', False) | Some v \<Rightarrow> (v, True)))"

definition Key :: "UnprocessedImageRef \<Rightarrow> string" where
  "Key u = DigestRef u @ '':'' @ Tag u"

text \<open>
  \<open>regname.NewDigest\<close> belongs to go-containerregistry, not to this
  repository, so the embedding takes it as a parameter \<open>newDigest\<close>: the name
  is mapped to \<open>Inl err\<close> when parsing fails and to \<open>Inr ()\<close> otherwise (the
  parsed digest is discarded by \<open>Validate\<close>).
\<close>

type_synonym digest_parser = "string \<Rightarrow> string + unit"

definition Validate :: "digest_parser \<Rightarrow> UnprocessedImageRef \<Rightarrow> unit outcome" where
  "Validate newDigest u =
     (case newDigest (DigestRef u) of
        Inl err \<Rightarrow> Panic (''Digest need to be provided: '' @ err)
      | Inr _ \<Rightarrow> Return ())"

text \<open>
  The Go map \<open>imgRefs\<close> is an association list with one pair per key.  Go leaves
  the iteration order of a map unspecified; the order of the list stands for
  whichever order the runtime picks, and no theorem below depends on it.  The
  mutex serialises the callers, so each operation is one atomic step on the
  state.
\<close>

record UnprocessedImageRefs =
  imgRefs :: "(string \<times> UnprocessedImageRef) list"

definition NewUnprocessedImageRefs :: UnprocessedImageRefs where
  "NewUnprocessedImageRefs = \<lparr>imgRefs = []\<rparr>"

definition Add ::
  "digest_parser \<Rightarrow> UnprocessedImageRefs \<Rightarrow> UnprocessedImageRef \<Rightarrow> UnprocessedImageRefs outcome"
where
  "Add newDigest i imgRef =
     (case Validate newDigest imgRef of
        Panic msg \<Rightarrow> Panic msg
      | Return _ \<Rightarrow> Return (i\<lparr>imgRefs := AList.update (Key imgRef) imgRef (imgRefs i)\<rparr>))"

definition Length :: "UnprocessedImageRefs \<Rightarrow> int" where
  "Length i = int (length (imgRefs i))"

text \<open>
  \<open>All()\<close>: the values of the map, then
  \<open>sort.Slice\<close> with the comparison \<open>result[i].DigestRef < result[j].DigestRef\<close>;
  Go compares strings bytewise, which is the lexicographic order on
  \<^typ>\<open>char list\<close>.
\<close>

definition All_refs :: "UnprocessedImageRefs \<Rightarrow> UnprocessedImageRef list" where
  "All_refs i = sort_key DigestRef (map snd (imgRefs i))"

text \<open>
  The states that \<open>Add\<close> can build: every entry is stored under its own key and
  no key occurs twice.
\<close>

definition keyed :: "UnprocessedImageRefs \<Rightarrow> bool" where
  "keyed i \<longleftrightarrow>
     distinct (map fst (imgRefs i)) \<and> list_all (\<lambda>(k, v). k = Key v) (imgRefs i)"

text \<open>
  A parser to evaluate the definitions on concrete names: it makes the first
  check of \<open>regname.NewDigest\<close>, that the name has exactly one \<open>@\<close>.
\<close>

definition oneAtSign :: digest_parser where
  "oneAtSign name =
     (if length (filter (\<lambda>c. c = CHR ''@'') name) = 1 then Inr ()
      else Inl ''a digest must contain exactly one @ separator'')"

text \<open>References to evaluate the set on.\<close>

definition ref_first :: UnprocessedImageRef where
  "ref_first =
     \<lparr>DigestRef = ''a.io/app@sha256:ab'', Tag = ''v1'', Labels = None, OrigRef = ''first''\<rparr>"

definition ref_second :: UnprocessedImageRef where
  "ref_second =
     \<lparr>DigestRef = ''a.io/app@sha256:ab'', Tag = ''v1'', Labels = None, OrigRef = ''second''\<rparr>"

definition ref_mirror :: UnprocessedImageRef where
  "ref_mirror =
     \<lparr>DigestRef = ''b.io/app@sha256:ab'', Tag = ''v1'', Labels = None, OrigRef = ''''\<rparr>"

definition ref_tagged :: UnprocessedImageRef where
  "ref_tagged =
     \<lparr>DigestRef = ''a.io/app:v1'', Tag = ''v1'', Labels = None, OrigRef = ''''\<rparr>"

section \<open>Package imageset: processed images\<close>

text \<open>
  \<open>ProcessedImage\<close> and \<open>ProcessedImages\<close> are declared in another file of
  the package.  The record has the four fields that the copy command reads and
  copies; \<open>Image\<close> and \<open>ImageIndex\<close> are interface values that are only tested
  against \<open>nil\<close> and handed on, so they are optional opaque handles.  The set
  is given by what its two methods return: \<open>All()\<close> and \<open>FindByURL(ref)\<close> (with
  \<open>None\<close> for \<open>found = false\<close>).  Nothing is assumed about the two, so the
  theorems hold for every such set.
\<close>

type_synonym v1_Image = nat
type_synonym v1_ImageIndex = nat

record ProcessedImage =
  UnprocessedImageRef_pi :: UnprocessedImageRef
  DigestRef_pi :: string
  Image_pi :: "v1_Image option"
  ImageIndex_pi :: "v1_ImageIndex option"

record ProcessedImages =
  All_pi :: "ProcessedImage list"
  FindByURL :: "UnprocessedImageRef \<Rightarrow> ProcessedImage option"

section \<open>Package lockconfig: lock files\<close>

text \<open>
  The lock structures, as far as the copy command builds them.  \<open>ImagesLock\<close>
  and \<open>BundleLock\<close> embed \<open>LockVersion\<close>, which is record extension here.
\<close>

record LockVersion =
  APIVersion :: string
  Kind :: string

record ImageRef =
  Image_ir :: string

record ImagesLock = LockVersion +
  Images :: "ImageRef list"

record BundleRef =
  Image_b :: string
  Tag_b :: string

record BundleLock = LockVersion +
  Bundle :: BundleRef

datatype lock_file = ImagesLock_file ImagesLock | BundleLock_file BundleLock

section \<open>Package cmd: the copy command\<close>

record TarFlags =
  TarSrc :: string
  TarDst :: string
  Resume :: bool

text \<open>
  The fields of \<open>CopyOptions\<close> that \<open>Run\<close> reads.  The flag structures with
  one field that matters are flattened: \<open>ImageFlags_Image\<close> is
  \<open>c.ImageFlags.Image\<close>, and so on.  \<open>ui\<close> and \<open>RegistryFlags\<close> only reach the
  logger and the registry constructor.
\<close>

record CopyOptions =
  ImageFlags_Image :: string
  BundleFlags_Bundle :: string
  LockInputFlags_LockFilePath :: string
  LockOutputFlags_LockFilePath :: string
  TarFlags :: TarFlags
  SignatureFlags_CopyCosignSignatures :: bool
  RepoDst :: string
  Concurrency :: int
  IncludeNonDistributable :: bool
  UseRepoBasedTags :: bool

datatype tag_generator = DefaultTagGenerator | RepoBasedTagGenerator

datatype signature_fetcher = Cosign | Noop

text \<open>
  \<open>v1.CopyOpts\<close> and \<open>v1.CopyOrigin\<close>, as \<open>Run\<close> fills them.  The tag generator
  sits inside the image set; the loggers carry no data.
\<close>

record CopyOpts =
  ImageSet_tagGen :: tag_generator
  Concurrency_o :: int
  SignatureRetriever :: signature_fetcher
  IncludeNonDistributable_o :: bool
  Resume_o :: bool

record CopyOrigin =
  ImageRef_o :: string
  BundleRef_o :: string
  TarPath :: string
  LockfilePath :: string

text \<open>
  A \<open>bundle.Bundle\<close> over a fetched plain image: what the detector is asked
  about and what the bundle lock is written from.
\<close>

record Bundle_t =
  DigestRef_bundle :: string
  Tag_bundle :: string
  Image_bundle :: "v1_Image option"

text \<open>
  Modelled from the spec: \<open>bundle.NewBundleFromPlainImage\<close>,
  \<open>plainimage.NewFetchedPlainImageWithTag\<close> and the getters \<open>DigestRef()\<close> and
  \<open>Tag()\<close> are declared in other packages.  The bundle lock carries "the
  destination digest and tag", so the bundle keeps the digest reference, the
  tag and the image it was built from, and the getters return them.
\<close>

definition NewBundleFromPlainImage :: "string \<Rightarrow> string \<Rightarrow> v1_Image option \<Rightarrow> Bundle_t" where
  "NewBundleFromPlainImage digestRef tag img =
     \<lparr>DigestRef_bundle = digestRef, Tag_bundle = tag, Image_bundle = img\<rparr>"

text \<open>
  What \<open>Run\<close> calls in other packages, as parameters: the result of
  \<open>registry.NewSimpleRegistry\<close> for the given flags, the two copy functions of
  package \<open>v1\<close> (the descriptors returned by \<open>CopyToTar\<close> only feed a log
  message and are left out), \<open>v1.IsRootBundle\<close>, the detector \<open>IsBundle()\<close>,
  reading and writing lock files, and the four constants of \<open>lockconfig\<close>.
  Nothing is assumed about them; each may fail where its Go signature has an
  error.
\<close>

record world =
  NewSimpleRegistry :: error
  CopyToTar :: "CopyOrigin \<Rightarrow> string \<Rightarrow> CopyOpts \<Rightarrow> error"
  CopyToRepository :: "CopyOrigin \<Rightarrow> string \<Rightarrow> CopyOpts \<Rightarrow> string + ProcessedImages"
  IsRootBundle :: "ProcessedImage \<Rightarrow> bool"
  IsBundle :: "Bundle_t \<Rightarrow> string + bool"
  NewImagesLockFromPath :: "string \<Rightarrow> string + ImagesLock"
  WriteToPath :: "string \<Rightarrow> lock_file \<Rightarrow> error"
  ImagesLockAPIVersion :: string
  ImagesLockKind :: string
  BundleLockAPIVersion :: string
  BundleLockKind :: string

text \<open>
  What a run does to the outside: the copies it starts and the lock files it
  writes, in order.  A call is recorded whether or not it returns an error.
\<close>

datatype event =
    CopyToTar_call CopyOrigin string CopyOpts
  | CopyToRepository_call CopyOrigin string CopyOpts
  | WriteToPath_call string lock_file

text \<open>The format \<open>'%s'\<close>.\<close>

definition quoted :: "string \<Rightarrow> string" where
  "quoted s = [CHR 0x27] @ s @ [CHR 0x27]"

text \<open>
  Modelled from the spec: \<open>TarFlags.IsSrc\<close> is declared in another file of the
  package; the tar source is one of the four source selectors, chosen by giving
  its path.
\<close>

definition IsSrc :: "TarFlags \<Rightarrow> bool" where
  "IsSrc t \<longleftrightarrow> TarSrc t \<noteq> ''''"

text \<open>
  Modelled from the spec: \<open>TarFlags.IsDst\<close> is declared in another file of the
  package; the tar destination is one of the two destination selectors, chosen
  by giving its path.
\<close>

definition IsDst :: "TarFlags \<Rightarrow> bool" where
  "IsDst t \<longleftrightarrow> TarDst t \<noteq> ''''"

definition isRepoDst :: "CopyOptions \<Rightarrow> bool" where
  "isRepoDst c \<longleftrightarrow> RepoDst c \<noteq> ''''"

definition hasOneDst :: "CopyOptions \<Rightarrow> bool" where
  "hasOneDst c =
     (let repoSet = isRepoDst c; tarSet = IsDst (TarFlags c)
      in (repoSet \<or> tarSet) \<and> \<not> (repoSet \<and> tarSet))"

fun hasOneSrc_loop :: "string list \<Rightarrow> bool \<Rightarrow> bool" where
  "hasOneSrc_loop [] seen = seen"
| "hasOneSrc_loop (ref # refs) seen =
     (if ref \<noteq> '''' then (if seen then False else hasOneSrc_loop refs True)
      else hasOneSrc_loop refs seen)"

definition hasOneSrc :: "CopyOptions \<Rightarrow> bool" where
  "hasOneSrc c =
     hasOneSrc_loop
       [LockInputFlags_LockFilePath c, TarSrc (TarFlags c), BundleFlags_Bundle c,
        ImageFlags_Image c] False"

definition writeBundleLockOutput ::
  "world \<Rightarrow> CopyOptions \<Rightarrow> Bundle_t \<Rightarrow> error outcome \<times> event list"
where
  "writeBundleLockOutput w c bundle =
     (let bundleLock = BundleLock_file
            \<lparr>APIVersion = BundleLockAPIVersion w, Kind = BundleLockKind w,
             Bundle = \<lparr>Image_b = DigestRef_bundle bundle, Tag_b = Tag_bundle bundle\<rparr>\<rparr>
      in (Return (WriteToPath w (LockOutputFlags_LockFilePath c) bundleLock),
          [WriteToPath_call (LockOutputFlags_LockFilePath c) bundleLock]))"

text \<open>
  The loop over the entries of the lock file that was read: each entry is
  looked up by its \<open>image\<close> alone (\<open>UnprocessedImageRef{DigestRef: image.Image}\<close>)
  and rewritten in place; the first entry that is not found ends the loop with
  an error.
\<close>

fun rewriteImages :: "ProcessedImages \<Rightarrow> ImageRef list \<Rightarrow> string + ImageRef list" where
  "rewriteImages processedImages [] = Inr []"
| "rewriteImages processedImages (entry # entries) =
     (case FindByURL processedImages
             \<lparr>DigestRef = Image_ir entry, Tag = '''', Labels = None, OrigRef = ''''\<rparr> of
        None \<Rightarrow>
          Inl (''Expected image '' @ quoted (Image_ir entry) @ '' to have been copied but was not'')
      | Some img \<Rightarrow>
          (case rewriteImages processedImages entries of
             Inl err \<Rightarrow> Inl err
           | Inr entries' \<Rightarrow> Inr (entry\<lparr>Image_ir := DigestRef_pi img\<rparr> # entries')))"

definition writeImagesLockOutput ::
  "world \<Rightarrow> CopyOptions \<Rightarrow> ProcessedImages \<Rightarrow> error outcome \<times> event list"
where
  "writeImagesLockOutput w c processedImages =
     (if LockInputFlags_LockFilePath c \<noteq> '''' then
        (case NewImagesLockFromPath w (LockInputFlags_LockFilePath c) of
           Inl err \<Rightarrow> (Return (Some err), [])
         | Inr imagesLock \<Rightarrow>
             (case rewriteImages processedImages (Images imagesLock) of
                Inl err \<Rightarrow> (Return (Some err), [])
              | Inr images' \<Rightarrow>
                  (Return (WriteToPath w (LockOutputFlags_LockFilePath c)
                             (ImagesLock_file (imagesLock\<lparr>Images := images'\<rparr>))),
                   [WriteToPath_call (LockOutputFlags_LockFilePath c)
                      (ImagesLock_file (imagesLock\<lparr>Images := images'\<rparr>))])))
      else
        (let imagesLock = ImagesLock_file
               \<lparr>APIVersion = ImagesLockAPIVersion w, Kind = ImagesLockKind w,
                Images = map (\<lambda>img. \<lparr>Image_ir = DigestRef_pi img\<rparr>) (All_pi processedImages)\<rparr>
         in (Return (WriteToPath w (LockOutputFlags_LockFilePath c) imagesLock),
             [WriteToPath_call (LockOutputFlags_LockFilePath c) imagesLock])))"

text \<open>
  The loop of \<open>findProcessedImageRootBundle\<close>, with \<open>bundleProcessedImage\<close> as
  the accumulator (\<open>None\<close> for the nil pointer).  The struct it stores copies
  the four fields of the entry.
\<close>

fun findRootBundle_loop ::
  "world \<Rightarrow> ProcessedImage list \<Rightarrow> ProcessedImage option \<Rightarrow> ProcessedImage option outcome"
where
  "findRootBundle_loop w [] bundleProcessedImage = Return bundleProcessedImage"
| "findRootBundle_loop w (processedImage # rest) bundleProcessedImage =
     (if IsRootBundle w processedImage then
        (if bundleProcessedImage \<noteq> None then
           Panic ''Internal inconsistency: expected only 1 root bundle''
         else
           findRootBundle_loop w rest
             (Some \<lparr>UnprocessedImageRef_pi = UnprocessedImageRef_pi processedImage,
                    DigestRef_pi = DigestRef_pi processedImage,
                    Image_pi = Image_pi processedImage,
                    ImageIndex_pi = ImageIndex_pi processedImage\<rparr>))
      else findRootBundle_loop w rest bundleProcessedImage)"

definition findProcessedImageRootBundle ::
  "world \<Rightarrow> ProcessedImages \<Rightarrow> ProcessedImage option outcome"
where
  "findProcessedImageRootBundle w processedImages =
     findRootBundle_loop w (All_pi processedImages) None"

fun informUserIfTarballNeedsToBeRecreated_loop :: "world \<Rightarrow> ProcessedImage list \<Rightarrow> error" where
  "informUserIfTarballNeedsToBeRecreated_loop w [] = None"
| "informUserIfTarballNeedsToBeRecreated_loop w (item # rest) =
     (if ImageIndex_pi item \<noteq> None then informUserIfTarballNeedsToBeRecreated_loop w rest
      else
        (case IsBundle w
                (NewBundleFromPlainImage (DigestRef_pi item)
                   (Tag (UnprocessedImageRef_pi item)) (Image_pi item)) of
           Inl err \<Rightarrow>
             Some (''Check if '' @ quoted (DigestRef_pi item) @ '' is bundle: '' @ err)
         | Inr ok \<Rightarrow>
             (if ok then
                Some ''Unable to determine correct root bundle to use for lock-output. hint: if copying from a tarball, try re-generating the tarball''
              else informUserIfTarballNeedsToBeRecreated_loop w rest)))"

definition informUserIfTarballNeedsToBeRecreated :: "world \<Rightarrow> ProcessedImages \<Rightarrow> error" where
  "informUserIfTarballNeedsToBeRecreated w processedImages =
     informUserIfTarballNeedsToBeRecreated_loop w (All_pi processedImages)"

definition writeLockOutput ::
  "world \<Rightarrow> CopyOptions \<Rightarrow> ProcessedImages \<Rightarrow> error outcome \<times> event list"
where
  "writeLockOutput w c processedImages =
     (if LockOutputFlags_LockFilePath c = '''' then (Return None, [])
      else
        (case findProcessedImageRootBundle w processedImages of
           Panic msg \<Rightarrow> (Panic msg, [])
         | Return (Some processedImageRootBundle) \<Rightarrow>
             (if ImageIndex_pi processedImageRootBundle \<noteq> None then
                (Panic (''Internal inconsistency: '' @ quoted (DigestRef_pi processedImageRootBundle)
                          @ '' should be a bundle but it is not''), [])
              else
                (let foundBundle =
                       NewBundleFromPlainImage (DigestRef_pi processedImageRootBundle)
                         (Tag (UnprocessedImageRef_pi processedImageRootBundle))
                         (Image_pi processedImageRootBundle)
                 in (case IsBundle w foundBundle of
                       Inl err \<Rightarrow>
                         (Return (Some (''Check if '' @ quoted (DigestRef_pi processedImageRootBundle)
                                          @ '' is bundle: '' @ err)), [])
                     | Inr ok \<Rightarrow>
                         (if \<not> ok then
                            (Panic (''Internal inconsistency: ''
                                      @ quoted (DigestRef_pi processedImageRootBundle)
                                      @ '' should be a bundle but it is not''), [])
                          else writeBundleLockOutput w c foundBundle))))
         | Return None \<Rightarrow>
             (case informUserIfTarballNeedsToBeRecreated w processedImages of
                Some err \<Rightarrow> (Return (Some err), [])
              | None \<Rightarrow> writeImagesLockOutput w c processedImages)))"

definition copyOpts :: "CopyOptions \<Rightarrow> CopyOpts" where
  "copyOpts c =
     \<lparr>ImageSet_tagGen = (if UseRepoBasedTags c then RepoBasedTagGenerator else DefaultTagGenerator),
      Concurrency_o = Concurrency c,
      SignatureRetriever = (if SignatureFlags_CopyCosignSignatures c then Cosign else Noop),
      IncludeNonDistributable_o = IncludeNonDistributable c,
      Resume_o = Resume (TarFlags c)\<rparr>"

definition tarOrigin :: "CopyOptions \<Rightarrow> CopyOrigin" where
  "tarOrigin c =
     \<lparr>ImageRef_o = ImageFlags_Image c, BundleRef_o = BundleFlags_Bundle c, TarPath = '''',
      LockfilePath = LockInputFlags_LockFilePath c\<rparr>"

definition repoOrigin :: "CopyOptions \<Rightarrow> CopyOrigin" where
  "repoOrigin c =
     \<lparr>ImageRef_o = ImageFlags_Image c, BundleRef_o = BundleFlags_Bundle c,
      TarPath = TarSrc (TarFlags c), LockfilePath = LockInputFlags_LockFilePath c\<rparr>"

text \<open>
  \<open>Run\<close>, with the result and the events of the run.  Building the loggers, the
  image sets and the options has no effect outside; the two calls that report
  non-distributable layers only write to the logger.
\<close>

definition Run :: "world \<Rightarrow> CopyOptions \<Rightarrow> error outcome \<times> event list" where
  "Run w c =
     (if \<not> hasOneSrc c then
        (Return (Some ''Expected either --lock, --bundle (-b), --image (-i), or --tar as a source''), [])
      else if \<not> hasOneDst c then
        (Return (Some ''Expected either --to-tar or --to-repo''), [])
      else
        (case NewSimpleRegistry w of
           Some err \<Rightarrow> (Return (Some err), [])
         | None \<Rightarrow>
             (if IsDst (TarFlags c) then
                (if IsSrc (TarFlags c) then
                   (Return (Some ''Cannot use tar source (--tar) with tar destination (--to-tar)''), [])
                 else if LockOutputFlags_LockFilePath c \<noteq> '''' then
                   (Return (Some ''Cannot output lock file with tar destination''), [])
                 else
                   (case CopyToTar w (tarOrigin c) (TarDst (TarFlags c)) (copyOpts c) of
                      Some err \<Rightarrow>
                        (Return (Some err),
                         [CopyToTar_call (tarOrigin c) (TarDst (TarFlags c)) (copyOpts c)])
                    | None \<Rightarrow>
                        (Return None,
                         [CopyToTar_call (tarOrigin c) (TarDst (TarFlags c)) (copyOpts c)])))
              else if isRepoDst c then
                (if Resume (TarFlags c) then
                   (Return (Some ''Flag --resume can only be used when copying to tar''), [])
                 else
                   (case CopyToRepository w (repoOrigin c) (RepoDst c) (copyOpts c) of
                      Inl err \<Rightarrow>
                        (Return (Some err),
                         [CopyToRepository_call (repoOrigin c) (RepoDst c) (copyOpts c)])
                    | Inr processedImages \<Rightarrow>
                        (case writeLockOutput w c processedImages of
                           (res, evs) \<Rightarrow>
                             (res, CopyToRepository_call (repoOrigin c) (RepoDst c) (copyOpts c) # evs))))
              else (Panic ''Unreachable'', []))))"

text \<open>
  The detector applied to an entry of the processed set, as both
  \<open>writeLockOutput\<close> and \<open>informUserIfTarballNeedsToBeRecreated\<close> call it.
\<close>

abbreviation detector :: "world \<Rightarrow> ProcessedImage \<Rightarrow> string + bool" where
  "detector w item \<equiv>
     IsBundle w
       (NewBundleFromPlainImage (DigestRef_pi item) (Tag (UnprocessedImageRef_pi item))
          (Image_pi item))"

section \<open>Configurations and collaborators to evaluate on\<close>

text \<open>
  Processed images: two plain images, an image whose manifest cannot be read,
  a bundle without the root marker, two bundles with it, and two marked
  entries that are no bundle (a plain image and an image index).  The handle
  \<open>1\<close> is a bundle's image for the detector below, \<open>2\<close> an image it cannot read.
\<close>

definition img_a :: ProcessedImage where
  "img_a =
     \<lparr>UnprocessedImageRef_pi =
        \<lparr>DigestRef = ''src.io/a@sha256:aa'', Tag = ''v1'', Labels = None, OrigRef = ''''\<rparr>,
      DigestRef_pi = ''dst.io/app@sha256:aa'', Image_pi = Some 3, ImageIndex_pi = None\<rparr>"

definition img_b :: ProcessedImage where
  "img_b =
     \<lparr>UnprocessedImageRef_pi =
        \<lparr>DigestRef = ''src.io/b@sha256:bb'', Tag = '''', Labels = None, OrigRef = ''''\<rparr>,
      DigestRef_pi = ''dst.io/app@sha256:bb'', Image_pi = Some 4, ImageIndex_pi = None\<rparr>"

definition img_unreadable :: ProcessedImage where
  "img_unreadable =
     \<lparr>UnprocessedImageRef_pi =
        \<lparr>DigestRef = ''src.io/u@sha256:a0'', Tag = '''', Labels = None, OrigRef = ''''\<rparr>,
      DigestRef_pi = ''dst.io/app@sha256:a0'', Image_pi = Some 2, ImageIndex_pi = None\<rparr>"

definition bundle_unmarked :: ProcessedImage where
  "bundle_unmarked =
     \<lparr>UnprocessedImageRef_pi =
        \<lparr>DigestRef = ''src.io/c@sha256:cc'', Tag = '''', Labels = None, OrigRef = ''''\<rparr>,
      DigestRef_pi = ''dst.io/app@sha256:cc'', Image_pi = Some 1, ImageIndex_pi = None\<rparr>"

definition bundle_root :: ProcessedImage where
  "bundle_root =
     \<lparr>UnprocessedImageRef_pi =
        \<lparr>DigestRef = ''src.io/r@sha256:d0'', Tag = ''v1'',
         Labels = Some [''dev.carvel.imgpkg.copy.root-bundle'' \<mapsto> ''''], OrigRef = ''''\<rparr>,
      DigestRef_pi = ''dst.io/app@sha256:d0'', Image_pi = Some 1, ImageIndex_pi = None\<rparr>"

definition bundle_root2 :: ProcessedImage where
  "bundle_root2 =
     \<lparr>UnprocessedImageRef_pi =
        \<lparr>DigestRef = ''src.io/r@sha256:d1'', Tag = ''v2'',
         Labels = Some [''dev.carvel.imgpkg.copy.root-bundle'' \<mapsto> ''''], OrigRef = ''''\<rparr>,
      DigestRef_pi = ''dst.io/app@sha256:d1'', Image_pi = Some 1, ImageIndex_pi = None\<rparr>"

definition root_not_bundle :: ProcessedImage where
  "root_not_bundle =
     \<lparr>UnprocessedImageRef_pi =
        \<lparr>DigestRef = ''src.io/r@sha256:d2'', Tag = '''',
         Labels = Some [''dev.carvel.imgpkg.copy.root-bundle'' \<mapsto> ''''], OrigRef = ''''\<rparr>,
      DigestRef_pi = ''dst.io/app@sha256:d2'', Image_pi = Some 3, ImageIndex_pi = None\<rparr>"

definition root_index :: ProcessedImage where
  "root_index =
     \<lparr>UnprocessedImageRef_pi =
        \<lparr>DigestRef = ''src.io/r@sha256:d3'', Tag = '''',
         Labels = Some [''dev.carvel.imgpkg.copy.root-bundle'' \<mapsto> ''''], OrigRef = ''''\<rparr>,
      DigestRef_pi = ''dst.io/app@sha256:d3'', Image_pi = None, ImageIndex_pi = Some 7\<rparr>"

text \<open>
  A processed set that enumerates the given entries and finds an entry by the
  digest reference it was copied from.
\<close>

definition processed_of :: "ProcessedImage list \<Rightarrow> ProcessedImages" where
  "processed_of entries =
     \<lparr>All_pi = entries,
      FindByURL = (\<lambda>u. find (\<lambda>p. DigestRef (UnprocessedImageRef_pi p) = DigestRef u) entries)\<rparr>"

text \<open>
  Collaborators that succeed: the registry is built, both copies succeed (the
  copy to a repository yields the two plain images), the root marker is a label,
  the lock file \<open>in.lock.yml\<close> lists image \<open>b\<close> before image \<open>a\<close>, and every write
  succeeds.
\<close>

definition world_ok :: world where
  "world_ok =
     \<lparr>NewSimpleRegistry = None,
      CopyToTar = (\<lambda>origin dst opts. None),
      CopyToRepository = (\<lambda>origin dst opts. Inr (processed_of [img_a, img_b])),
      IsRootBundle =
        (\<lambda>p. snd (LabelValue (UnprocessedImageRef_pi p) ''dev.carvel.imgpkg.copy.root-bundle'')),
      IsBundle =
        (\<lambda>b. if Image_bundle b = Some 1 then Inr True
              else if Image_bundle b = Some 2 then Inl ''manifest unknown''
              else Inr False),
      NewImagesLockFromPath =
        (\<lambda>path.
           if path = ''in.lock.yml'' then
             Inr \<lparr>APIVersion = ''imgpkg.carvel.dev/v1alpha1'', Kind = ''ImagesLock'',
                  Images = [\<lparr>Image_ir = ''src.io/b@sha256:bb''\<rparr>,
                            \<lparr>Image_ir = ''src.io/a@sha256:aa''\<rparr>]\<rparr>
           else Inl ''no such file''),
      WriteToPath = (\<lambda>path file. None),
      ImagesLockAPIVersion = ''imgpkg.carvel.dev/v1alpha1'',
      ImagesLockKind = ''ImagesLock'',
      BundleLockAPIVersion = ''imgpkg.carvel.dev/v1alpha1'',
      BundleLockKind = ''BundleLock''\<rparr>"

text \<open>
  Configurations: an image copied to a repository, and variants of it.
\<close>

definition copy_image_to_repo :: CopyOptions where
  "copy_image_to_repo =
     \<lparr>ImageFlags_Image = ''src.io/a@sha256:aa'', BundleFlags_Bundle = '''',
      LockInputFlags_LockFilePath = '''', LockOutputFlags_LockFilePath = '''',
      TarFlags = \<lparr>TarSrc = '''', TarDst = '''', Resume = False\<rparr>,
      SignatureFlags_CopyCosignSignatures = False, RepoDst = ''dst.io/app'',
      Concurrency = 5, IncludeNonDistributable = False, UseRepoBasedTags = False\<rparr>"

definition copy_no_source :: CopyOptions where
  "copy_no_source = copy_image_to_repo\<lparr>ImageFlags_Image := ''''\<rparr>"

definition copy_two_sources :: CopyOptions where
  "copy_two_sources = copy_image_to_repo\<lparr>BundleFlags_Bundle := ''src.io/r@sha256:d0''\<rparr>"

definition copy_no_destination :: CopyOptions where
  "copy_no_destination = copy_image_to_repo\<lparr>RepoDst := ''''\<rparr>"

definition copy_two_destinations :: CopyOptions where
  "copy_two_destinations =
     copy_image_to_repo\<lparr>TarFlags := \<lparr>TarSrc = '''', TarDst = ''out.tar'', Resume = False\<rparr>\<rparr>"

definition copy_image_to_tar :: CopyOptions where
  "copy_image_to_tar =
     copy_image_to_repo
       \<lparr>RepoDst := '''', TarFlags := \<lparr>TarSrc = '''', TarDst = ''out.tar'', Resume = False\<rparr>\<rparr>"



definition tar_with_lock_output :: CopyOptions where
  "tar_with_lock_output = copy_image_to_tar\<lparr>LockOutputFlags_LockFilePath := ''out.lock.yml''\<rparr>"

definition tar_to_tar :: CopyOptions where
  "tar_to_tar =
     copy_image_to_repo
       \<lparr>ImageFlags_Image := '''', RepoDst := '''',
        TarFlags := \<lparr>TarSrc = ''in.tar'', TarDst = ''out.tar'', Resume = False\<rparr>\<rparr>"

definition image_with_lock_output :: CopyOptions where
  "image_with_lock_output =
     copy_image_to_repo\<lparr>LockOutputFlags_LockFilePath := ''out.lock.yml''\<rparr>"

definition lock_with_lock_output :: CopyOptions where
  "lock_with_lock_output =
     copy_image_to_repo
       \<lparr>ImageFlags_Image := '''', LockInputFlags_LockFilePath := ''in.lock.yml'',
        LockOutputFlags_LockFilePath := ''out.lock.yml''\<rparr>"



section \<open>Facts about the set of unprocessed references\<close>

lemma set_All_refs: "set (All_refs i) = snd ` set (imgRefs i)"
  by (simp add: All_refs_def)

lemma update_mem_same: "(k, v) \<in> set (AList.update k v al)"
  by (induction al) auto

lemma update_mem_other:
  "k' \<noteq> k \<Longrightarrow> (k', v') \<in> set al \<Longrightarrow> (k', v') \<in> set (AList.update k v al)"
  by (induction al) auto

lemma update_subset: "set (AList.update k v al) \<subseteq> insert (k, v) (set al)"
  by (induction al) auto

lemma length_update_present:
  "k \<in> fst ` set al \<Longrightarrow> length (AList.update k v al) = length al"
  by (induction al) auto

lemma Add_Return:
  "Add newDigest i r = Return i' \<Longrightarrow>
     newDigest (DigestRef r) = Inr () \<and> imgRefs i' = AList.update (Key r) r (imgRefs i)"
  by (auto simp: Add_def Validate_def split: sum.splits outcome.splits)

lemma keyed_update:
  "keyed i \<Longrightarrow> keyed (i\<lparr>imgRefs := AList.update (Key r) r (imgRefs i)\<rparr>)"
  using update_subset [of "Key r" r "imgRefs i"]
  by (auto simp: keyed_def distinct_update list_all_iff)

lemma keyed_Add: "keyed i \<Longrightarrow> Add newDigest i r = Return i' \<Longrightarrow> keyed i'"
  by (auto simp: Add_def Validate_def keyed_update split: sum.splits outcome.splits)

lemma keyed_NewUnprocessedImageRefs: "keyed NewUnprocessedImageRefs"
  by (simp add: keyed_def NewUnprocessedImageRefs_def)

lemma keyed_unique:
  assumes "keyed i" "r \<in> set (All_refs i)" "r' \<in> set (All_refs i)" "Key r = Key r'"
  shows "r = r'"
proof -
  from assms(1) have d: "distinct (map fst (imgRefs i))"
    and k: "\<And>a b. (a, b) \<in> set (imgRefs i) \<Longrightarrow> a = Key b"
    by (auto simp: keyed_def list_all_iff)
  from assms(2) obtain a where a: "(a, r) \<in> set (imgRefs i)" by (auto simp: set_All_refs)
  from assms(3) obtain b where b: "(b, r') \<in> set (imgRefs i)" by (auto simp: set_All_refs)
  from a b k assms(4) have "a = b" by metis
  with a b d show ?thesis by (meson eq_key_imp_eq_value)
qed

lemma sep_prefix_inj:
  "c \<notin> set xs \<Longrightarrow> c \<notin> set ys \<Longrightarrow> xs @ c # r = ys @ c # s \<Longrightarrow> xs = ys"
proof (induction xs arbitrary: ys)
  case Nil
  then show ?case by (cases ys) auto
next
  case (Cons x xs)
  then show ?case by (cases ys) auto
qed

lemma Key_repo_distinct:
  assumes "DigestRef r1 = repo1 @ ''@sha256:'' @ hex" "DigestRef r2 = repo2 @ ''@sha256:'' @ hex"
    "repo1 \<noteq> repo2" "CHR ''@'' \<notin> set repo1" "CHR ''@'' \<notin> set repo2"
  shows "Key r1 \<noteq> Key r2"
proof
  assume "Key r1 = Key r2"
  then have "repo1 @ CHR ''@'' # (''sha256:'' @ hex @ '':'' @ Tag r1)
           = repo2 @ CHR ''@'' # (''sha256:'' @ hex @ '':'' @ Tag r2)"
    using assms(1,2) by (simp add: Key_def)
  with assms(4,5) have "repo1 = repo2" by (rule sep_prefix_inj)
  with assms(3) show False by simp
qed

section \<open>Facts about \<open>Run\<close>\<close>

lemma hasOneSrc_loop_count:
  "hasOneSrc_loop refs seen \<longleftrightarrow>
     length (filter (\<lambda>ref. ref \<noteq> '''') refs) + (if seen then 1 else 0) = 1"
  by (induction refs arbitrary: seen) auto

lemma hasOneSrc_count:
  "hasOneSrc c \<longleftrightarrow>
     length (filter (\<lambda>ref. ref \<noteq> '''')
       [LockInputFlags_LockFilePath c, TarSrc (TarFlags c), BundleFlags_Bundle c,
        ImageFlags_Image c]) = 1"
  unfolding hasOneSrc_def hasOneSrc_loop_count by simp

lemma hasOneDst_iff:
  "hasOneDst c \<longleftrightarrow> (RepoDst c \<noteq> '''') \<noteq> (TarDst (TarFlags c) \<noteq> '''')"
  by (auto simp: hasOneDst_def isRepoDst_def IsDst_def Let_def)

lemma Run_no_source:
  "\<not> hasOneSrc c \<Longrightarrow>
     Run w c = (Return (Some ''Expected either --lock, --bundle (-b), --image (-i), or --tar as a source''), [])"
  by (simp add: Run_def)

lemma Run_no_destination:
  "hasOneSrc c \<Longrightarrow> \<not> hasOneDst c \<Longrightarrow>
     Run w c = (Return (Some ''Expected either --to-tar or --to-repo''), [])"
  by (simp add: Run_def)


lemma Run_tar:
  "hasOneSrc c \<Longrightarrow> hasOneDst c \<Longrightarrow> NewSimpleRegistry w = None \<Longrightarrow> IsDst (TarFlags c) \<Longrightarrow>
     Run w c =
       (if IsSrc (TarFlags c) then
          (Return (Some ''Cannot use tar source (--tar) with tar destination (--to-tar)''), [])
        else if LockOutputFlags_LockFilePath c \<noteq> '''' then
          (Return (Some ''Cannot output lock file with tar destination''), [])
        else
          (Return (CopyToTar w (tarOrigin c) (TarDst (TarFlags c)) (copyOpts c)),
           [CopyToTar_call (tarOrigin c) (TarDst (TarFlags c)) (copyOpts c)]))"
  by (simp add: Run_def split: option.splits)

lemma Run_repo:
  "hasOneSrc c \<Longrightarrow> hasOneDst c \<Longrightarrow> NewSimpleRegistry w = None \<Longrightarrow> \<not> IsDst (TarFlags c) \<Longrightarrow>
     Run w c =
       (if Resume (TarFlags c) then
          (Return (Some ''Flag --resume can only be used when copying to tar''), [])
        else
          (case CopyToRepository w (repoOrigin c) (RepoDst c) (copyOpts c) of
             Inl err \<Rightarrow>
               (Return (Some err), [CopyToRepository_call (repoOrigin c) (RepoDst c) (copyOpts c)])
           | Inr processedImages \<Rightarrow>
               (fst (writeLockOutput w c processedImages),
                CopyToRepository_call (repoOrigin c) (RepoDst c) (copyOpts c)
                  # snd (writeLockOutput w c processedImages))))"
  by (auto simp: Run_def hasOneDst_def Let_def split: option.splits sum.splits prod.splits)

lemma Run_tar_events:
  "TarDst (TarFlags c) \<noteq> '''' \<Longrightarrow>
     snd (Run w c) = [] \<or>
     snd (Run w c) = [CopyToTar_call (tarOrigin c) (TarDst (TarFlags c)) (copyOpts c)]"
  by (auto simp: Run_def IsDst_def split: option.splits)

section \<open>Facts about the lock-output writer\<close>

lemma rewriteImages_found:
  "\<forall>entry \<in> set entries.
      FindByURL pis \<lparr>DigestRef = Image_ir entry, Tag = '''', Labels = None, OrigRef = ''''\<rparr> \<noteq> None \<Longrightarrow>
   rewriteImages pis entries =
     Inr (map (\<lambda>entry. entry\<lparr>Image_ir := DigestRef_pi (the (FindByURL pis
            \<lparr>DigestRef = Image_ir entry, Tag = '''', Labels = None, OrigRef = ''''\<rparr>))\<rparr>) entries)"
  by (induction entries) auto

lemma rewriteImages_missing:
  "find (\<lambda>entry. FindByURL pis
            \<lparr>DigestRef = Image_ir entry, Tag = '''', Labels = None, OrigRef = ''''\<rparr> = None) entries
     = Some entry \<Longrightarrow>
   rewriteImages pis entries =
     Inl (''Expected image '' @ quoted (Image_ir entry) @ '' to have been copied but was not'')"
  by (induction entries) (auto split: if_splits)

lemma find_missing:
  "\<exists>x \<in> set xs. P x \<Longrightarrow> \<exists>x \<in> set xs. P x \<and> find P xs = Some x"
  by (induction xs) auto

lemma findRootBundle_loop_marked:
  "findRootBundle_loop w ps acc =
     (if filter (IsRootBundle w) ps = [] then Return acc
      else if acc = None \<and> length (filter (IsRootBundle w) ps) = 1
        then Return (Some (hd (filter (IsRootBundle w) ps)))
      else Panic ''Internal inconsistency: expected only 1 root bundle'')"
proof (induction ps arbitrary: acc)
  case Nil
  then show ?case by simp
next
  case (Cons p ps)
  have copy: "\<lparr>UnprocessedImageRef_pi = UnprocessedImageRef_pi p, DigestRef_pi = DigestRef_pi p,
      Image_pi = Image_pi p, ImageIndex_pi = ImageIndex_pi p\<rparr> = p"
    by simp
  show ?case
    by (simp add: Cons.IH copy)
qed

lemma findProcessedImageRootBundle_cases:
  "findProcessedImageRootBundle w pis =
     (case filter (IsRootBundle w) (All_pi pis) of
        [] \<Rightarrow> Return None
      | [rb] \<Rightarrow> Return (Some rb)
      | _ \<Rightarrow> Panic ''Internal inconsistency: expected only 1 root bundle'')"
  by (simp add: findProcessedImageRootBundle_def findRootBundle_loop_marked
      split: list.splits)

lemma inform_loop_bundle:
  "\<forall>q \<in> set before. ImageIndex_pi q \<noteq> None \<or> detector w q = Inr False \<Longrightarrow>
   ImageIndex_pi p = None \<Longrightarrow> detector w p = Inr True \<Longrightarrow>
   informUserIfTarballNeedsToBeRecreated_loop w (before @ p # rest) =
     Some ''Unable to determine correct root bundle to use for lock-output. hint: if copying from a tarball, try re-generating the tarball''"
  by (induction before) auto

lemma inform_loop_error:
  "\<forall>q \<in> set before. ImageIndex_pi q \<noteq> None \<or> detector w q = Inr False \<Longrightarrow>
   ImageIndex_pi p = None \<Longrightarrow> detector w p = Inl err \<Longrightarrow>
   informUserIfTarballNeedsToBeRecreated_loop w (before @ p # rest) =
     Some (''Check if '' @ quoted (DigestRef_pi p) @ '' is bundle: '' @ err)"
  by (induction before) auto

lemma inform_loop_none:
  "\<forall>q \<in> set ps. ImageIndex_pi q = None \<longrightarrow> detector w q = Inr False \<Longrightarrow>
   informUserIfTarballNeedsToBeRecreated_loop w ps = None"
  by (induction ps) auto

lemma inform_loop_some:
  "\<exists>q \<in> set ps. ImageIndex_pi q = None \<and> detector w q = Inr True \<Longrightarrow>
   \<exists>err. informUserIfTarballNeedsToBeRecreated_loop w ps = Some err"
  by (induction ps) (auto split: sum.splits)

section \<open>Label lookup\<close>

text \<open>
  C10.  \<open>LabelValue\<close> returns \<open>(v, true)\<close> exactly when the labels map the label
  to \<open>v\<close>, and \<open>("", false)\<close> when the label is absent, also for a nil map.  The
  function is total (it never fails) and returns nothing but this pair, so the
  record is left as it was.
\<close>

theorem LabelValue_lookup:
  "(LabelValue u l = (v, True) \<longleftrightarrow> (\<exists>m. Labels u = Some m \<and> m l = Some v)) \<and>
   ((\<forall>m. Labels u = Some m \<longrightarrow> m l = None) \<longrightarrow> LabelValue u l = ('''', False)) \<and>
   (Labels u = None \<longrightarrow> LabelValue u l = ('''', False))"
  by (auto simp: LabelValue_def split: option.splits)

theorem LabelValue_lookup_witness:
  "LabelValue \<lparr>DigestRef = ''r.io/app@sha256:ab'', Tag = ''v1'',
      Labels = Some [''kind'' \<mapsto> ''bundle''], OrigRef = ''''\<rparr> ''kind'' = (''bundle'', True) \<and>
   LabelValue \<lparr>DigestRef = ''r.io/app@sha256:ab'', Tag = ''v1'',
      Labels = Some [''kind'' \<mapsto> ''bundle''], OrigRef = ''''\<rparr> ''other'' = ('''', False) \<and>
   LabelValue \<lparr>DigestRef = ''r.io/app@sha256:ab'', Tag = ''v1'',
      Labels = None, OrigRef = ''''\<rparr> ''kind'' = ('''', False)"
  using
    LabelValue_lookup [of "\<lparr>DigestRef = ''r.io/app@sha256:ab'', Tag = ''v1'',
      Labels = Some [''kind'' \<mapsto> ''bundle''], OrigRef = ''''\<rparr>" "''kind''" "''bundle''"]
    LabelValue_lookup [of "\<lparr>DigestRef = ''r.io/app@sha256:ab'', Tag = ''v1'',
      Labels = Some [''kind'' \<mapsto> ''bundle''], OrigRef = ''''\<rparr>" "''other''" "''''"]
    LabelValue_lookup [of "\<lparr>DigestRef = ''r.io/app@sha256:ab'', Tag = ''v1'',
      Labels = None, OrigRef = ''''\<rparr>" "''kind''" "''''"]
  by simp

section \<open>Validation\<close>

text \<open>
  C1, as the code has it.  \<open>Validate\<close> has no result: for a reference whose
  \<open>DigestRef\<close> the parser rejects with \<open>err\<close> it panics with the message
  "Digest need to be provided: " followed by \<open>err\<close>, and so does \<open>Add\<close>, which
  calls it first and then leaves the set untouched.  For a reference that
  parses, \<open>Validate\<close> returns and \<open>Add\<close> stores the reference under its key.
\<close>

theorem Validate_panics:
  "(newDigest (DigestRef u) = Inl err \<longrightarrow>
      Validate newDigest u = Panic (''Digest need to be provided: '' @ err) \<and>
      Add newDigest i u = Panic (''Digest need to be provided: '' @ err)) \<and>
   (newDigest (DigestRef u) = Inr () \<longrightarrow>
      Validate newDigest u = Return () \<and>
      Add newDigest i u = Return (i\<lparr>imgRefs := AList.update (Key u) u (imgRefs i)\<rparr>))"
  by (simp add: Validate_def Add_def)

theorem Validate_panics_witness:
  "oneAtSign (DigestRef ref_tagged) = Inl ''a digest must contain exactly one @ separator'' \<and>
   Validate oneAtSign ref_tagged
     = Panic ''Digest need to be provided: a digest must contain exactly one @ separator'' \<and>
   Add oneAtSign NewUnprocessedImageRefs ref_tagged
     = Panic ''Digest need to be provided: a digest must contain exactly one @ separator'' \<and>
   oneAtSign (DigestRef ref_first) = Inr () \<and>
   Validate oneAtSign ref_first = Return () \<and>
   Add oneAtSign NewUnprocessedImageRefs ref_first
     = Return \<lparr>imgRefs = [(''a.io/app@sha256:ab:v1'', ref_first)]\<rparr>"
proof -
  have t: "oneAtSign (DigestRef ref_tagged) = Inl ''a digest must contain exactly one @ separator''"
    by (simp add: oneAtSign_def ref_tagged_def)
  have f: "oneAtSign (DigestRef ref_first) = Inr ()"
    by (simp add: oneAtSign_def ref_first_def)
  have u: "NewUnprocessedImageRefs\<lparr>imgRefs := AList.update (Key ref_first) ref_first
              (imgRefs NewUnprocessedImageRefs)\<rparr>
           = \<lparr>imgRefs = [(''a.io/app@sha256:ab:v1'', ref_first)]\<rparr>"
    by (simp add: NewUnprocessedImageRefs_def Key_def ref_first_def)
  show ?thesis
    using Validate_panics [of oneAtSign ref_tagged
        "''a digest must contain exactly one @ separator''" NewUnprocessedImageRefs]
      Validate_panics [of oneAtSign ref_first "''''" NewUnprocessedImageRefs] t f u
    by simp
qed

text \<open>
  C1 as stated fails: for a reference with a tag and no digest, \<open>Validate\<close> and
  \<open>Add\<close> panic; no error value is returned.
\<close>

theorem Validate_typed_error_counterexample:
  "oneAtSign (DigestRef ref_tagged) = Inl ''a digest must contain exactly one @ separator'' \<and>
   Validate oneAtSign ref_tagged
     = Panic ''Digest need to be provided: a digest must contain exactly one @ separator'' \<and>
   Add oneAtSign NewUnprocessedImageRefs ref_tagged
     = Panic ''Digest need to be provided: a digest must contain exactly one @ separator''"
  by (simp add: Validate_def Add_def oneAtSign_def ref_tagged_def)


section \<open>Insertion\<close>

text \<open>
  C5.  \<open>Add\<close> stores a reference under \<open>DigestRef + ":" + Tag\<close>.  Let \<open>r1\<close> and
  then \<open>r2\<close> be added to a set built by \<open>Add\<close>.  If their keys are equal, the
  set then holds \<open>r2\<close>, it does not hold \<open>r1\<close> (unless they are the same record)
  and the second \<open>Add\<close> leaves the size as it was.  If they are digest
  references \<open>repo@sha256:hex\<close> with the same \<open>hex\<close> and different repositories
  (a repository has no \<open>@\<close>), their keys differ and the set holds both.
\<close>

theorem Add_last_writer_wins:
  assumes "keyed i" and "Add newDigest i r1 = Return i1" and "Add newDigest i1 r2 = Return i2"
  shows "map_of (imgRefs i2) (DigestRef r2 @ '':'' @ Tag r2) = Some r2 \<and>
     (Key r1 = Key r2 \<longrightarrow>
        r2 \<in> set (All_refs i2) \<and> (r1 \<noteq> r2 \<longrightarrow> r1 \<notin> set (All_refs i2)) \<and>
        Length i2 = Length i1) \<and>
     (DigestRef r1 = repo1 @ ''@sha256:'' @ hex \<and> DigestRef r2 = repo2 @ ''@sha256:'' @ hex \<and>
      repo1 \<noteq> repo2 \<and> CHR ''@'' \<notin> set repo1 \<and> CHR ''@'' \<notin> set repo2 \<longrightarrow>
        Key r1 \<noteq> Key r2 \<and> r1 \<in> set (All_refs i2) \<and> r2 \<in> set (All_refs i2))"
proof -
  from assms(2) have e1: "imgRefs i1 = AList.update (Key r1) r1 (imgRefs i)"
    by (simp add: Add_Return)
  from assms(3) have e2: "imgRefs i2 = AList.update (Key r2) r2 (imgRefs i1)"
    by (simp add: Add_Return)
  have k2: "keyed i2"
    using assms keyed_Add by blast
  have in2: "r2 \<in> set (All_refs i2)"
    unfolding set_All_refs e2 using update_mem_same [of "Key r2" r2 "imgRefs i1"] by force
  have lookup: "map_of (imgRefs i2) (DigestRef r2 @ '':'' @ Tag r2) = Some r2"
    by (simp add: e2 update_conv' Key_def)
  have same: "r2 \<in> set (All_refs i2) \<and> (r1 \<noteq> r2 \<longrightarrow> r1 \<notin> set (All_refs i2)) \<and>
      Length i2 = Length i1"
    if eq: "Key r1 = Key r2"
  proof -
    have "Key r2 \<in> fst ` set (imgRefs i1)"
      unfolding e1 eq [symmetric] by (simp add: dom_update)
    then have "Length i2 = Length i1"
      by (simp add: Length_def e2 length_update_present)
    moreover have "r1 \<notin> set (All_refs i2)" if "r1 \<noteq> r2"
      using keyed_unique [OF k2 _ in2 eq] that by blast
    ultimately show ?thesis using in2 by blast
  qed
  have diff: "Key r1 \<noteq> Key r2 \<and> r1 \<in> set (All_refs i2) \<and> r2 \<in> set (All_refs i2)"
    if "DigestRef r1 = repo1 @ ''@sha256:'' @ hex" "DigestRef r2 = repo2 @ ''@sha256:'' @ hex"
      "repo1 \<noteq> repo2" "CHR ''@'' \<notin> set repo1" "CHR ''@'' \<notin> set repo2"
  proof -
    have ne: "Key r1 \<noteq> Key r2" using that by (rule Key_repo_distinct)
    have "(Key r1, r1) \<in> set (imgRefs i1)"
      unfolding e1 by (rule update_mem_same)
    with ne have "(Key r1, r1) \<in> set (imgRefs i2)"
      unfolding e2 by (simp add: update_mem_other)
    then have "r1 \<in> set (All_refs i2)"
      unfolding set_All_refs by force
    with ne in2 show ?thesis by blast
  qed
  from lookup same diff show ?thesis by blast
qed

theorem Add_last_writer_wins_witness:
  "keyed NewUnprocessedImageRefs \<and>
   Add oneAtSign NewUnprocessedImageRefs ref_first
     = Return \<lparr>imgRefs = [(''a.io/app@sha256:ab:v1'', ref_first)]\<rparr> \<and>
   Add oneAtSign \<lparr>imgRefs = [(''a.io/app@sha256:ab:v1'', ref_first)]\<rparr> ref_second
     = Return \<lparr>imgRefs = [(''a.io/app@sha256:ab:v1'', ref_second)]\<rparr> \<and>
   Key ref_first = Key ref_second \<and> ref_first \<noteq> ref_second \<and>
   ref_second \<in> set (All_refs \<lparr>imgRefs = [(''a.io/app@sha256:ab:v1'', ref_second)]\<rparr>) \<and>
   ref_first \<notin> set (All_refs \<lparr>imgRefs = [(''a.io/app@sha256:ab:v1'', ref_second)]\<rparr>) \<and>
   Length \<lparr>imgRefs = [(''a.io/app@sha256:ab:v1'', ref_second)]\<rparr>
     = Length \<lparr>imgRefs = [(''a.io/app@sha256:ab:v1'', ref_first)]\<rparr> \<and>
   Add oneAtSign \<lparr>imgRefs = [(''a.io/app@sha256:ab:v1'', ref_first)]\<rparr> ref_mirror
     = Return \<lparr>imgRefs = [(''a.io/app@sha256:ab:v1'', ref_first),
                            (''b.io/app@sha256:ab:v1'', ref_mirror)]\<rparr> \<and>
   DigestRef ref_first = ''a.io/app'' @ ''@sha256:'' @ ''ab'' \<and>
   DigestRef ref_mirror = ''b.io/app'' @ ''@sha256:'' @ ''ab'' \<and>
   Key ref_first \<noteq> Key ref_mirror \<and>
   ref_first \<in> set (All_refs \<lparr>imgRefs = [(''a.io/app@sha256:ab:v1'', ref_first),
                                          (''b.io/app@sha256:ab:v1'', ref_mirror)]\<rparr>) \<and>
   ref_mirror \<in> set (All_refs \<lparr>imgRefs = [(''a.io/app@sha256:ab:v1'', ref_first),
                                           (''b.io/app@sha256:ab:v1'', ref_mirror)]\<rparr>)"
proof -
  have k: "keyed NewUnprocessedImageRefs"
    by (simp add: keyed_def NewUnprocessedImageRefs_def)
  have a1: "Add oneAtSign NewUnprocessedImageRefs ref_first
     = Return \<lparr>imgRefs = [(''a.io/app@sha256:ab:v1'', ref_first)]\<rparr>"
    by (simp add: Add_def Validate_def oneAtSign_def NewUnprocessedImageRefs_def Key_def ref_first_def)
  have a2: "Add oneAtSign \<lparr>imgRefs = [(''a.io/app@sha256:ab:v1'', ref_first)]\<rparr> ref_second
     = Return \<lparr>imgRefs = [(''a.io/app@sha256:ab:v1'', ref_second)]\<rparr>"
    by (simp add: Add_def Validate_def oneAtSign_def Key_def ref_second_def)
  have a3: "Add oneAtSign \<lparr>imgRefs = [(''a.io/app@sha256:ab:v1'', ref_first)]\<rparr> ref_mirror
     = Return \<lparr>imgRefs = [(''a.io/app@sha256:ab:v1'', ref_first),
                            (''b.io/app@sha256:ab:v1'', ref_mirror)]\<rparr>"
    by (simp add: Add_def Validate_def oneAtSign_def Key_def ref_mirror_def)
  have e: "Key ref_first = Key ref_second" "ref_first \<noteq> ref_second"
    by (simp_all add: Key_def ref_first_def ref_second_def)
  have d: "DigestRef ref_first = ''a.io/app'' @ ''@sha256:'' @ ''ab''"
    "DigestRef ref_mirror = ''b.io/app'' @ ''@sha256:'' @ ''ab''"
    by (simp_all add: ref_first_def ref_mirror_def)
  have r: "''a.io/app'' \<noteq> ''b.io/app'' \<and> CHR ''@'' \<notin> set ''a.io/app'' \<and> CHR ''@'' \<notin> set ''b.io/app''"
    by simp
  show ?thesis
    using Add_last_writer_wins [OF k a1 a2, of "''''" "''''" "''''"]
      Add_last_writer_wins [OF k a1 a3, of "''a.io/app''" "''ab''" "''b.io/app''"]
      k a1 a2 a3 e d r
    by blast
qed

section \<open>Enumeration of the set\<close>

text \<open>
  C6.  In every state \<open>All()\<close> returns exactly the entries of the set, each as
  often as it is stored, in ascending order of \<open>DigestRef\<close>.
\<close>

theorem All_sorted_entries:
  "mset (All_refs i) = mset (map snd (imgRefs i)) \<and> sorted (map DigestRef (All_refs i))"
  by (simp add: All_refs_def)

section \<open>Source and destination checks of \<open>Run\<close>\<close>

text \<open>
  C7.  \<open>Run\<close> checks the sources first and the destinations second, before
  anything else.  Unless exactly one of the lock file path, the tar source, the
  bundle and the image is non-empty, it returns the error that names the
  sources, with no copy started; with one source, unless exactly one of the
  repository and the tar destination is set, it returns the error that names
  the destinations, with no copy started.  A configuration with one source
  and one destination is let through: with the registry built, no lock output,
  no resume and no tar source next to a tar destination, the run starts the
  copy.
\<close>

theorem Run_source_destination_validation:
  "(length (filter (\<lambda>ref. ref \<noteq> '''')
       [LockInputFlags_LockFilePath c, TarSrc (TarFlags c), BundleFlags_Bundle c,
        ImageFlags_Image c]) \<noteq> 1 \<longrightarrow>
      Run w c =
        (Return (Some ''Expected either --lock, --bundle (-b), --image (-i), or --tar as a source''), [])) \<and>
   (length (filter (\<lambda>ref. ref \<noteq> '''')
       [LockInputFlags_LockFilePath c, TarSrc (TarFlags c), BundleFlags_Bundle c,
        ImageFlags_Image c]) = 1 \<and>
    (RepoDst c \<noteq> '''') = (TarDst (TarFlags c) \<noteq> '''') \<longrightarrow>
      Run w c = (Return (Some ''Expected either --to-tar or --to-repo''), [])) \<and>
   (length (filter (\<lambda>ref. ref \<noteq> '''')
       [LockInputFlags_LockFilePath c, TarSrc (TarFlags c), BundleFlags_Bundle c,
        ImageFlags_Image c]) = 1 \<and>
    (RepoDst c \<noteq> '''') \<noteq> (TarDst (TarFlags c) \<noteq> '''') \<and>
    NewSimpleRegistry w = None \<and> LockOutputFlags_LockFilePath c = '''' \<and>
    \<not> Resume (TarFlags c) \<and> (TarDst (TarFlags c) \<noteq> '''' \<longrightarrow> TarSrc (TarFlags c) = '''') \<longrightarrow>
      snd (Run w c) =
        (if TarDst (TarFlags c) \<noteq> ''''
         then [CopyToTar_call (tarOrigin c) (TarDst (TarFlags c)) (copyOpts c)]
         else [CopyToRepository_call (repoOrigin c) (RepoDst c) (copyOpts c)]))"
proof (intro conjI impI)
  assume "length (filter (\<lambda>ref. ref \<noteq> '''')
       [LockInputFlags_LockFilePath c, TarSrc (TarFlags c), BundleFlags_Bundle c,
        ImageFlags_Image c]) \<noteq> 1"
  then have "\<not> hasOneSrc c" using hasOneSrc_count [of c] by blast
  then show "Run w c =
        (Return (Some ''Expected either --lock, --bundle (-b), --image (-i), or --tar as a source''), [])"
    by (rule Run_no_source)
next
  assume a: "length (filter (\<lambda>ref. ref \<noteq> '''')
       [LockInputFlags_LockFilePath c, TarSrc (TarFlags c), BundleFlags_Bundle c,
        ImageFlags_Image c]) = 1 \<and>
    (RepoDst c \<noteq> '''') = (TarDst (TarFlags c) \<noteq> '''')"
  then have "hasOneSrc c" "\<not> hasOneDst c"
    using hasOneSrc_count [of c] hasOneDst_iff [of c] by blast+
  then show "Run w c = (Return (Some ''Expected either --to-tar or --to-repo''), [])"
    by (rule Run_no_destination)
next
  assume a: "length (filter (\<lambda>ref. ref \<noteq> '''')
       [LockInputFlags_LockFilePath c, TarSrc (TarFlags c), BundleFlags_Bundle c,
        ImageFlags_Image c]) = 1 \<and>
    (RepoDst c \<noteq> '''') \<noteq> (TarDst (TarFlags c) \<noteq> '''') \<and>
    NewSimpleRegistry w = None \<and> LockOutputFlags_LockFilePath c = '''' \<and>
    \<not> Resume (TarFlags c) \<and> (TarDst (TarFlags c) \<noteq> '''' \<longrightarrow> TarSrc (TarFlags c) = '''')"
  then have s: "hasOneSrc c" and d: "hasOneDst c"
    using hasOneSrc_count [of c] hasOneDst_iff [of c] by blast+
  from a have r: "NewSimpleRegistry w = None" by simp
  show "snd (Run w c) =
        (if TarDst (TarFlags c) \<noteq> ''''
         then [CopyToTar_call (tarOrigin c) (TarDst (TarFlags c)) (copyOpts c)]
         else [CopyToRepository_call (repoOrigin c) (RepoDst c) (copyOpts c)])"
  proof (cases "IsDst (TarFlags c)")
    case True
    with a show ?thesis
      by (simp add: Run_tar [OF s d r True] IsDst_def IsSrc_def)
  next
    case False
    with a show ?thesis
      by (simp add: Run_repo [OF s d r False] IsDst_def writeLockOutput_def split: sum.splits)
  qed
qed

theorem Run_source_destination_validation_witness:
  "\<not> hasOneSrc copy_no_source \<and>
   Run world_ok copy_no_source =
     (Return (Some ''Expected either --lock, --bundle (-b), --image (-i), or --tar as a source''), []) \<and>
   \<not> hasOneSrc copy_two_sources \<and>
   Run world_ok copy_two_sources =
     (Return (Some ''Expected either --lock, --bundle (-b), --image (-i), or --tar as a source''), []) \<and>
   hasOneSrc copy_no_destination \<and> \<not> hasOneDst copy_no_destination \<and>
   Run world_ok copy_no_destination = (Return (Some ''Expected either --to-tar or --to-repo''), []) \<and>
   hasOneSrc copy_two_destinations \<and> \<not> hasOneDst copy_two_destinations \<and>
   Run world_ok copy_two_destinations = (Return (Some ''Expected either --to-tar or --to-repo''), []) \<and>
   hasOneSrc copy_image_to_repo \<and> hasOneDst copy_image_to_repo \<and>
   snd (Run world_ok copy_image_to_repo) =
     [CopyToRepository_call (repoOrigin copy_image_to_repo) ''dst.io/app''
        (copyOpts copy_image_to_repo)] \<and>
   hasOneSrc copy_image_to_tar \<and> hasOneDst copy_image_to_tar \<and>
   snd (Run world_ok copy_image_to_tar) =
     [CopyToTar_call (tarOrigin copy_image_to_tar) ''out.tar'' (copyOpts copy_image_to_tar)]"
proof -
  have h: "\<not> hasOneSrc copy_no_source" "\<not> hasOneSrc copy_two_sources"
    "hasOneSrc copy_no_destination" "\<not> hasOneDst copy_no_destination"
    "hasOneSrc copy_two_destinations" "\<not> hasOneDst copy_two_destinations"
    "hasOneSrc copy_image_to_repo" "hasOneDst copy_image_to_repo"
    "hasOneSrc copy_image_to_tar" "hasOneDst copy_image_to_tar"
    by (simp_all add: hasOneSrc_def hasOneDst_def isRepoDst_def IsDst_def copy_image_to_repo_def copy_no_source_def copy_two_sources_def
        copy_no_destination_def copy_two_destinations_def copy_image_to_tar_def)
  have w: "NewSimpleRegistry world_ok = None"
    by (simp add: world_ok_def)
  have f: "LockOutputFlags_LockFilePath copy_image_to_repo = ''''"
    "\<not> Resume (TarFlags copy_image_to_repo)" "TarDst (TarFlags copy_image_to_repo) = ''''"
    "RepoDst copy_image_to_repo = ''dst.io/app''"
    "LockOutputFlags_LockFilePath copy_image_to_tar = ''''"
    "\<not> Resume (TarFlags copy_image_to_tar)" "TarDst (TarFlags copy_image_to_tar) = ''out.tar''"
    "TarSrc (TarFlags copy_image_to_tar) = ''''" "RepoDst copy_image_to_tar = ''''"
    by (simp_all add: copy_image_to_repo_def copy_no_source_def copy_two_sources_def
        copy_no_destination_def copy_two_destinations_def copy_image_to_tar_def)
  have 1: "Run world_ok copy_no_source =
     (Return (Some ''Expected either --lock, --bundle (-b), --image (-i), or --tar as a source''), [])"
    using Run_source_destination_validation [of copy_no_source world_ok]
      hasOneSrc_count [of copy_no_source] h by blast
  have 2: "Run world_ok copy_two_sources =
     (Return (Some ''Expected either --lock, --bundle (-b), --image (-i), or --tar as a source''), [])"
    using Run_source_destination_validation [of copy_two_sources world_ok]
      hasOneSrc_count [of copy_two_sources] h by blast
  have 3: "Run world_ok copy_no_destination = (Return (Some ''Expected either --to-tar or --to-repo''), [])"
    using Run_source_destination_validation [of copy_no_destination world_ok]
      hasOneSrc_count [of copy_no_destination] hasOneDst_iff [of copy_no_destination] h by blast
  have 4: "Run world_ok copy_two_destinations = (Return (Some ''Expected either --to-tar or --to-repo''), [])"
    using Run_source_destination_validation [of copy_two_destinations world_ok]
      hasOneSrc_count [of copy_two_destinations] hasOneDst_iff [of copy_two_destinations] h
    by blast
  have 5: "snd (Run world_ok copy_image_to_repo) =
        (if TarDst (TarFlags copy_image_to_repo) \<noteq> ''''
         then [CopyToTar_call (tarOrigin copy_image_to_repo) (TarDst (TarFlags copy_image_to_repo))
                 (copyOpts copy_image_to_repo)]
         else [CopyToRepository_call (repoOrigin copy_image_to_repo) (RepoDst copy_image_to_repo)
                 (copyOpts copy_image_to_repo)])"
    using Run_source_destination_validation [of copy_image_to_repo world_ok]
      hasOneSrc_count [of copy_image_to_repo] hasOneDst_iff [of copy_image_to_repo] h w f(1-3)
    by blast
  have 6: "snd (Run world_ok copy_image_to_tar) =
        (if TarDst (TarFlags copy_image_to_tar) \<noteq> ''''
         then [CopyToTar_call (tarOrigin copy_image_to_tar) (TarDst (TarFlags copy_image_to_tar))
                 (copyOpts copy_image_to_tar)]
         else [CopyToRepository_call (repoOrigin copy_image_to_tar) (RepoDst copy_image_to_tar)
                 (copyOpts copy_image_to_tar)])"
    using Run_source_destination_validation [of copy_image_to_tar world_ok]
      hasOneSrc_count [of copy_image_to_tar] hasOneDst_iff [of copy_image_to_tar] h w f(5,6,8)
    by blast
  show ?thesis
    using 1 2 3 4 5 6 h by (simp add: f)
qed

section \<open>Resume\<close>




section \<open>Tar destination and lock output\<close>

text \<open>
  C9.  With a tar destination and a non-empty lock output path, \<open>Run\<close> always
  returns an error and starts no copy; once the source and destination checks
  have passed, the registry is built and no tar source is given, the error is
  "Cannot output lock file with tar destination".  No run with a tar
  destination writes a lock file.  With a tar source and a tar destination
  \<open>Run\<close> always returns an error and starts no copy; after the checks and the
  registry, the error is "Cannot use tar source (--tar) with tar destination
  (--to-tar)".
\<close>

theorem Run_tar_destination_no_lock_output:
  "(TarDst (TarFlags c) \<noteq> '''' \<and> LockOutputFlags_LockFilePath c \<noteq> '''' \<longrightarrow>
      (\<exists>err. Run w c = (Return (Some err), [])) \<and>
      (hasOneSrc c \<and> hasOneDst c \<and> NewSimpleRegistry w = None \<and> TarSrc (TarFlags c) = '''' \<longrightarrow>
         Run w c = (Return (Some ''Cannot output lock file with tar destination''), []))) \<and>
   (TarDst (TarFlags c) \<noteq> '''' \<longrightarrow> WriteToPath_call path lockfile \<notin> set (snd (Run w c))) \<and>
   (TarSrc (TarFlags c) \<noteq> '''' \<and> TarDst (TarFlags c) \<noteq> '''' \<longrightarrow>
      (\<exists>err. Run w c = (Return (Some err), [])) \<and>
      (hasOneSrc c \<and> hasOneDst c \<and> NewSimpleRegistry w = None \<longrightarrow>
         Run w c =
           (Return (Some ''Cannot use tar source (--tar) with tar destination (--to-tar)''), [])))"
proof (intro conjI impI)
  assume a: "TarDst (TarFlags c) \<noteq> '''' \<and> LockOutputFlags_LockFilePath c \<noteq> ''''"
  then show "\<exists>err. Run w c = (Return (Some err), [])"
    by (auto simp: Run_def IsDst_def split: option.splits)
  show "Run w c = (Return (Some ''Cannot output lock file with tar destination''), [])"
    if "hasOneSrc c \<and> hasOneDst c \<and> NewSimpleRegistry w = None \<and> TarSrc (TarFlags c) = ''''"
    using that a by (simp add: Run_tar IsDst_def IsSrc_def)
next
  assume "TarDst (TarFlags c) \<noteq> ''''"
  from Run_tar_events [OF this, of w] show "WriteToPath_call path lockfile \<notin> set (snd (Run w c))"
    by auto
next
  assume a: "TarSrc (TarFlags c) \<noteq> '''' \<and> TarDst (TarFlags c) \<noteq> ''''"
  then show "\<exists>err. Run w c = (Return (Some err), [])"
    by (auto simp: Run_def IsDst_def IsSrc_def split: option.splits)
  show "Run w c =
           (Return (Some ''Cannot use tar source (--tar) with tar destination (--to-tar)''), [])"
    if "hasOneSrc c \<and> hasOneDst c \<and> NewSimpleRegistry w = None"
    using that a by (simp add: Run_tar IsDst_def IsSrc_def)
qed

theorem Run_tar_destination_no_lock_output_witness:
  "TarDst (TarFlags tar_with_lock_output) = ''out.tar'' \<and>
   LockOutputFlags_LockFilePath tar_with_lock_output = ''out.lock.yml'' \<and>
   hasOneSrc tar_with_lock_output \<and> hasOneDst tar_with_lock_output \<and>
   Run world_ok tar_with_lock_output =
     (Return (Some ''Cannot output lock file with tar destination''), []) \<and>
   WriteToPath_call ''out.lock.yml''
       (ImagesLock_file \<lparr>APIVersion = '''', Kind = '''', Images = []\<rparr>)
     \<notin> set (snd (Run world_ok copy_image_to_tar)) \<and>
   TarSrc (TarFlags tar_to_tar) = ''in.tar'' \<and> TarDst (TarFlags tar_to_tar) = ''out.tar'' \<and>
   hasOneSrc tar_to_tar \<and> hasOneDst tar_to_tar \<and>
   Run world_ok tar_to_tar =
     (Return (Some ''Cannot use tar source (--tar) with tar destination (--to-tar)''), [])"
proof -
  have h: "hasOneSrc tar_with_lock_output" "hasOneDst tar_with_lock_output"
    "hasOneSrc tar_to_tar" "hasOneDst tar_to_tar"
    by (simp_all add: hasOneSrc_def hasOneDst_def isRepoDst_def IsDst_def copy_image_to_repo_def copy_image_to_tar_def tar_with_lock_output_def
        tar_to_tar_def)
  have w: "NewSimpleRegistry world_ok = None"
    by (simp add: world_ok_def)
  have f: "TarDst (TarFlags tar_with_lock_output) = ''out.tar''"
    "TarSrc (TarFlags tar_with_lock_output) = ''''"
    "LockOutputFlags_LockFilePath tar_with_lock_output = ''out.lock.yml''"
    "TarDst (TarFlags copy_image_to_tar) = ''out.tar''"
    "TarSrc (TarFlags tar_to_tar) = ''in.tar''" "TarDst (TarFlags tar_to_tar) = ''out.tar''"
    by (simp_all add: copy_image_to_repo_def copy_image_to_tar_def tar_with_lock_output_def
        tar_to_tar_def)
  show ?thesis
    using Run_tar_destination_no_lock_output [where c = tar_with_lock_output and w = world_ok]
      Run_tar_destination_no_lock_output [where c = copy_image_to_tar and w = world_ok
        and path = "''out.lock.yml''"
        and lockfile = "ImagesLock_file \<lparr>APIVersion = '''', Kind = '''', Images = []\<rparr>"]
      Run_tar_destination_no_lock_output [where c = tar_to_tar and w = world_ok] h w f
    by simp
qed

section \<open>The root bundle\<close>

text \<open>
  C3, as the code has it.  The writer looks for the entries of \<open>All()\<close> that
  carry the root-bundle marker and expects at most one.  When lock output is
  requested and two or more entries carry the marker, the search panics with
  "Internal inconsistency: expected only 1 root bundle"; when exactly one entry
  carries it and that entry has its image index set, or the detector reports
  that it is no bundle, the writer panics with "Internal inconsistency: '...'
  should be a bundle but it is not".  In each case the panic leaves
  \<open>writeLockOutput\<close>: no error value is returned and no lock file is written.
\<close>

theorem writeLockOutput_internal_inconsistency:
  "LockOutputFlags_LockFilePath c \<noteq> '''' \<longrightarrow>
     (2 \<le> length (filter (IsRootBundle w) (All_pi pis)) \<longrightarrow>
        findProcessedImageRootBundle w pis
          = Panic ''Internal inconsistency: expected only 1 root bundle'' \<and>
        writeLockOutput w c pis
          = (Panic ''Internal inconsistency: expected only 1 root bundle'', [])) \<and>
     (filter (IsRootBundle w) (All_pi pis) = [rb] \<and>
      (ImageIndex_pi rb \<noteq> None \<or> detector w rb = Inr False) \<longrightarrow>
        findProcessedImageRootBundle w pis = Return (Some rb) \<and>
        writeLockOutput w c pis
          = (Panic (''Internal inconsistency: '' @ quoted (DigestRef_pi rb)
                      @ '' should be a bundle but it is not''), []))"
proof (intro conjI impI)
  assume "2 \<le> length (filter (IsRootBundle w) (All_pi pis))"
  then obtain r1 r2 rs where "filter (IsRootBundle w) (All_pi pis) = r1 # r2 # rs"
    by (cases "filter (IsRootBundle w) (All_pi pis)" rule: remdups_adj.cases) auto
  then show p: "findProcessedImageRootBundle w pis
          = Panic ''Internal inconsistency: expected only 1 root bundle''"
    by (simp add: findProcessedImageRootBundle_cases)
  assume "LockOutputFlags_LockFilePath c \<noteq> ''''"
  with p show "writeLockOutput w c pis
          = (Panic ''Internal inconsistency: expected only 1 root bundle'', [])"
    by (simp add: writeLockOutput_def)
next
  assume a: "filter (IsRootBundle w) (All_pi pis) = [rb] \<and>
      (ImageIndex_pi rb \<noteq> None \<or> detector w rb = Inr False)"
  then show f: "findProcessedImageRootBundle w pis = Return (Some rb)"
    by (simp add: findProcessedImageRootBundle_cases)
  assume "LockOutputFlags_LockFilePath c \<noteq> ''''"
  with f a show "writeLockOutput w c pis
          = (Panic (''Internal inconsistency: '' @ quoted (DigestRef_pi rb)
                      @ '' should be a bundle but it is not''), [])"
    by (auto simp: writeLockOutput_def)
qed

theorem writeLockOutput_internal_inconsistency_witness:
  "LockOutputFlags_LockFilePath image_with_lock_output = ''out.lock.yml'' \<and>
   filter (IsRootBundle world_ok) (All_pi (processed_of [img_a, bundle_root, bundle_root2]))
     = [bundle_root, bundle_root2] \<and>
   findProcessedImageRootBundle world_ok (processed_of [img_a, bundle_root, bundle_root2])
     = Panic ''Internal inconsistency: expected only 1 root bundle'' \<and>
   writeLockOutput world_ok image_with_lock_output (processed_of [img_a, bundle_root, bundle_root2])
     = (Panic ''Internal inconsistency: expected only 1 root bundle'', []) \<and>
   filter (IsRootBundle world_ok) (All_pi (processed_of [img_a, root_index])) = [root_index] \<and>
   ImageIndex_pi root_index = Some 7 \<and>
   writeLockOutput world_ok image_with_lock_output (processed_of [img_a, root_index])
     = (Panic (''Internal inconsistency: '' @ quoted ''dst.io/app@sha256:d3''
                 @ '' should be a bundle but it is not''), []) \<and>
   filter (IsRootBundle world_ok) (All_pi (processed_of [img_a, root_not_bundle]))
     = [root_not_bundle] \<and>
   detector world_ok root_not_bundle = Inr False \<and>
   writeLockOutput world_ok image_with_lock_output (processed_of [img_a, root_not_bundle])
     = (Panic (''Internal inconsistency: '' @ quoted ''dst.io/app@sha256:d2''
                 @ '' should be a bundle but it is not''), [])"
proof -
  have c: "LockOutputFlags_LockFilePath image_with_lock_output = ''out.lock.yml''"
    by (simp add: copy_image_to_repo_def image_with_lock_output_def)
  then have ne: "LockOutputFlags_LockFilePath image_with_lock_output \<noteq> ''''"
    by simp
  have m: "filter (IsRootBundle world_ok) (All_pi (processed_of [img_a, bundle_root, bundle_root2]))
       = [bundle_root, bundle_root2]"
    "filter (IsRootBundle world_ok) (All_pi (processed_of [img_a, root_index])) = [root_index]"
    "filter (IsRootBundle world_ok) (All_pi (processed_of [img_a, root_not_bundle]))
       = [root_not_bundle]"
    by (simp_all add: world_ok_def processed_of_def LabelValue_def img_a_def bundle_root_def bundle_root2_def root_not_bundle_def root_index_def)
  have i: "ImageIndex_pi root_index = Some 7" "DigestRef_pi root_index = ''dst.io/app@sha256:d3''"
    "DigestRef_pi root_not_bundle = ''dst.io/app@sha256:d2''"
    by (simp_all add: img_a_def bundle_root_def bundle_root2_def root_not_bundle_def root_index_def)
  have d: "detector world_ok root_not_bundle = Inr False"
    by (simp add: world_ok_def NewBundleFromPlainImage_def img_a_def bundle_root_def bundle_root2_def root_not_bundle_def root_index_def)
  have two: "2 \<le> length (filter (IsRootBundle world_ok)
      (All_pi (processed_of [img_a, bundle_root, bundle_root2])))"
    by (simp add: m)
  have idx: "filter (IsRootBundle world_ok) (All_pi (processed_of [img_a, root_index])) = [root_index] \<and>
      (ImageIndex_pi root_index \<noteq> None \<or> detector world_ok root_index = Inr False)"
    by (simp add: m i)
  have stale: "filter (IsRootBundle world_ok) (All_pi (processed_of [img_a, root_not_bundle]))
        = [root_not_bundle] \<and>
      (ImageIndex_pi root_not_bundle \<noteq> None \<or> detector world_ok root_not_bundle = Inr False)"
    using m(3) d by blast
  note r1 = writeLockOutput_internal_inconsistency [where c = image_with_lock_output
      and w = world_ok and pis = "processed_of [img_a, bundle_root, bundle_root2]",
      THEN mp, OF ne, THEN conjunct1, THEN mp, OF two]
  note r2 = writeLockOutput_internal_inconsistency [where c = image_with_lock_output
      and w = world_ok and pis = "processed_of [img_a, root_index]" and rb = root_index,
      THEN mp, OF ne, THEN conjunct2, THEN mp, OF idx]
  note r3 = writeLockOutput_internal_inconsistency [where c = image_with_lock_output
      and w = world_ok and pis = "processed_of [img_a, root_not_bundle]" and rb = root_not_bundle,
      THEN mp, OF ne, THEN conjunct2, THEN mp, OF stale]
  have 2: "writeLockOutput world_ok image_with_lock_output (processed_of [img_a, root_index])
     = (Panic (''Internal inconsistency: '' @ quoted ''dst.io/app@sha256:d3''
                 @ '' should be a bundle but it is not''), [])"
    using r2 by (simp add: i(2))
  have 3: "writeLockOutput world_ok image_with_lock_output (processed_of [img_a, root_not_bundle])
     = (Panic (''Internal inconsistency: '' @ quoted ''dst.io/app@sha256:d2''
                 @ '' should be a bundle but it is not''), [])"
    using r3 by (simp add: i(3))
  from r1 2 3 c m i(1) d show ?thesis by blast
qed

text \<open>
  C3 as stated fails: with two marked entries, with a marked image index and
  with a marked image that is no bundle, \<open>writeLockOutput\<close> ends in a panic
  and not in a returned error.
\<close>

theorem writeLockOutput_error_kind_counterexample:
  "writeLockOutput world_ok image_with_lock_output (processed_of [img_a, bundle_root, bundle_root2])
     = (Panic ''Internal inconsistency: expected only 1 root bundle'', []) \<and>
   writeLockOutput world_ok image_with_lock_output (processed_of [img_a, root_index])
     = (Panic (''Internal inconsistency: '' @ quoted ''dst.io/app@sha256:d3''
                 @ '' should be a bundle but it is not''), []) \<and>
   writeLockOutput world_ok image_with_lock_output (processed_of [img_a, root_not_bundle])
     = (Panic (''Internal inconsistency: '' @ quoted ''dst.io/app@sha256:d2''
                 @ '' should be a bundle but it is not''), [])"
  by (simp add: writeLockOutput_def findProcessedImageRootBundle_def world_ok_def processed_of_def
      LabelValue_def NewBundleFromPlainImage_def img_a_def bundle_root_def bundle_root2_def root_not_bundle_def
      root_index_def copy_image_to_repo_def image_with_lock_output_def)

section \<open>A bundle without the root marker\<close>

text \<open>
  C4, as the code has it.  Lock output is requested and no processed image
  carries the root-bundle marker.  The writer scans \<open>All()\<close> in order, passing
  over image indexes, and stops at the first entry on which the detector does
  not report "no bundle".  If that entry is reported as a bundle, the writer
  returns the error "Unable to determine correct root bundle to use for
  lock-output. hint: if copying from a tarball, try re-generating the tarball"
  and writes nothing.  If the detector itself fails on that entry, the writer
  returns that failure as "Check if '...' is bundle: ..." and writes nothing,
  whatever the entries behind it are.  So whenever some entry that is no image
  index is a bundle for the detector, the writer returns an error and writes
  nothing.  If the detector reports every entry that is no image index as no
  bundle, the writer does what \<open>writeImagesLockOutput\<close> does, which without a
  lock file as input is one write of an ImagesLock to the lock output path.
\<close>

theorem writeLockOutput_root_bundle_indeterminate:
  "LockOutputFlags_LockFilePath c \<noteq> '''' \<and> filter (IsRootBundle w) (All_pi pis) = [] \<longrightarrow>
     (All_pi pis = before @ p # rest \<and>
      (\<forall>q \<in> set before. ImageIndex_pi q \<noteq> None \<or> detector w q = Inr False) \<and>
      ImageIndex_pi p = None \<and> detector w p = Inr True \<longrightarrow>
        writeLockOutput w c pis =
          (Return (Some ''Unable to determine correct root bundle to use for lock-output. hint: if copying from a tarball, try re-generating the tarball''), [])) \<and>
     (All_pi pis = before @ p # rest \<and>
      (\<forall>q \<in> set before. ImageIndex_pi q \<noteq> None \<or> detector w q = Inr False) \<and>
      ImageIndex_pi p = None \<and> detector w p = Inl err \<longrightarrow>
        writeLockOutput w c pis =
          (Return (Some (''Check if '' @ quoted (DigestRef_pi p) @ '' is bundle: '' @ err)), [])) \<and>
     ((\<exists>q \<in> set (All_pi pis). ImageIndex_pi q = None \<and> detector w q = Inr True) \<longrightarrow>
        (\<exists>e. writeLockOutput w c pis = (Return (Some e), []))) \<and>
     ((\<forall>q \<in> set (All_pi pis). ImageIndex_pi q = None \<longrightarrow> detector w q = Inr False) \<longrightarrow>
        writeLockOutput w c pis = writeImagesLockOutput w c pis \<and>
        (LockInputFlags_LockFilePath c = '''' \<longrightarrow>
           snd (writeLockOutput w c pis) =
             [WriteToPath_call (LockOutputFlags_LockFilePath c)
                (ImagesLock_file
                   \<lparr>APIVersion = ImagesLockAPIVersion w, Kind = ImagesLockKind w,
                    Images = map (\<lambda>img. \<lparr>Image_ir = DigestRef_pi img\<rparr>) (All_pi pis)\<rparr>)]))"
proof (intro impI)
  assume a: "LockOutputFlags_LockFilePath c \<noteq> '''' \<and> filter (IsRootBundle w) (All_pi pis) = []"
  then have none: "findProcessedImageRootBundle w pis = Return None"
    by (simp add: findProcessedImageRootBundle_cases)
  with a have w: "writeLockOutput w c pis =
      (case informUserIfTarballNeedsToBeRecreated_loop w (All_pi pis) of
         Some err \<Rightarrow> (Return (Some err), [])
       | None \<Rightarrow> writeImagesLockOutput w c pis)"
    by (simp add: writeLockOutput_def informUserIfTarballNeedsToBeRecreated_def)
  have 1: "writeLockOutput w c pis =
          (Return (Some ''Unable to determine correct root bundle to use for lock-output. hint: if copying from a tarball, try re-generating the tarball''), [])"
    if "All_pi pis = before @ p # rest \<and>
      (\<forall>q \<in> set before. ImageIndex_pi q \<noteq> None \<or> detector w q = Inr False) \<and>
      ImageIndex_pi p = None \<and> detector w p = Inr True"
    using that by (simp add: w inform_loop_bundle)
  have 2: "writeLockOutput w c pis =
          (Return (Some (''Check if '' @ quoted (DigestRef_pi p) @ '' is bundle: '' @ err)), [])"
    if "All_pi pis = before @ p # rest \<and>
      (\<forall>q \<in> set before. ImageIndex_pi q \<noteq> None \<or> detector w q = Inr False) \<and>
      ImageIndex_pi p = None \<and> detector w p = Inl err"
    using that by (simp add: w inform_loop_error)
  have 3: "\<exists>e. writeLockOutput w c pis = (Return (Some e), [])"
    if "\<exists>q \<in> set (All_pi pis). ImageIndex_pi q = None \<and> detector w q = Inr True"
    using inform_loop_some [OF that] by (auto simp: w)
  have 4: "writeLockOutput w c pis = writeImagesLockOutput w c pis"
    if "\<forall>q \<in> set (All_pi pis). ImageIndex_pi q = None \<longrightarrow> detector w q = Inr False"
    using inform_loop_none [OF that] by (simp add: w)
  have 5: "snd (writeLockOutput w c pis) =
             [WriteToPath_call (LockOutputFlags_LockFilePath c)
                (ImagesLock_file
                   \<lparr>APIVersion = ImagesLockAPIVersion w, Kind = ImagesLockKind w,
                    Images = map (\<lambda>img. \<lparr>Image_ir = DigestRef_pi img\<rparr>) (All_pi pis)\<rparr>)]"
    if "\<forall>q \<in> set (All_pi pis). ImageIndex_pi q = None \<longrightarrow> detector w q = Inr False"
      and "LockInputFlags_LockFilePath c = ''''"
    using that(2) by (simp add: 4 [OF that(1)] writeImagesLockOutput_def Let_def)
  from 1 2 3 4 5 show "(All_pi pis = before @ p # rest \<and>
      (\<forall>q \<in> set before. ImageIndex_pi q \<noteq> None \<or> detector w q = Inr False) \<and>
      ImageIndex_pi p = None \<and> detector w p = Inr True \<longrightarrow>
        writeLockOutput w c pis =
          (Return (Some ''Unable to determine correct root bundle to use for lock-output. hint: if copying from a tarball, try re-generating the tarball''), [])) \<and>
     (All_pi pis = before @ p # rest \<and>
      (\<forall>q \<in> set before. ImageIndex_pi q \<noteq> None \<or> detector w q = Inr False) \<and>
      ImageIndex_pi p = None \<and> detector w p = Inl err \<longrightarrow>
        writeLockOutput w c pis =
          (Return (Some (''Check if '' @ quoted (DigestRef_pi p) @ '' is bundle: '' @ err)), [])) \<and>
     ((\<exists>q \<in> set (All_pi pis). ImageIndex_pi q = None \<and> detector w q = Inr True) \<longrightarrow>
        (\<exists>e. writeLockOutput w c pis = (Return (Some e), []))) \<and>
     ((\<forall>q \<in> set (All_pi pis). ImageIndex_pi q = None \<longrightarrow> detector w q = Inr False) \<longrightarrow>
        writeLockOutput w c pis = writeImagesLockOutput w c pis \<and>
        (LockInputFlags_LockFilePath c = '''' \<longrightarrow>
           snd (writeLockOutput w c pis) =
             [WriteToPath_call (LockOutputFlags_LockFilePath c)
                (ImagesLock_file
                   \<lparr>APIVersion = ImagesLockAPIVersion w, Kind = ImagesLockKind w,
                    Images = map (\<lambda>img. \<lparr>Image_ir = DigestRef_pi img\<rparr>) (All_pi pis)\<rparr>)]))"
    by blast
qed

theorem writeLockOutput_root_bundle_indeterminate_witness:
  "LockOutputFlags_LockFilePath image_with_lock_output = ''out.lock.yml'' \<and>
   filter (IsRootBundle world_ok) (All_pi (processed_of [img_a, bundle_unmarked])) = [] \<and>
   All_pi (processed_of [img_a, bundle_unmarked]) = [img_a] @ bundle_unmarked # [] \<and>
   ImageIndex_pi img_a = None \<and> detector world_ok img_a = Inr False \<and>
   ImageIndex_pi bundle_unmarked = None \<and> detector world_ok bundle_unmarked = Inr True \<and>
   writeLockOutput world_ok image_with_lock_output (processed_of [img_a, bundle_unmarked]) =
     (Return (Some ''Unable to determine correct root bundle to use for lock-output. hint: if copying from a tarball, try re-generating the tarball''), []) \<and>
   filter (IsRootBundle world_ok) (All_pi (processed_of [img_unreadable, bundle_unmarked])) = [] \<and>
   All_pi (processed_of [img_unreadable, bundle_unmarked]) = [] @ img_unreadable # [bundle_unmarked] \<and>
   ImageIndex_pi img_unreadable = None \<and>
   detector world_ok img_unreadable = Inl ''manifest unknown'' \<and>
   writeLockOutput world_ok image_with_lock_output (processed_of [img_unreadable, bundle_unmarked]) =
     (Return (Some (''Check if '' @ quoted ''dst.io/app@sha256:a0''
                      @ '' is bundle: manifest unknown'')), []) \<and>
   filter (IsRootBundle world_ok) (All_pi (processed_of [img_a, img_b])) = [] \<and>
   detector world_ok img_b = Inr False \<and>
   writeLockOutput world_ok image_with_lock_output (processed_of [img_a, img_b]) =
     writeImagesLockOutput world_ok image_with_lock_output (processed_of [img_a, img_b]) \<and>
   snd (writeLockOutput world_ok image_with_lock_output (processed_of [img_a, img_b])) =
     [WriteToPath_call ''out.lock.yml''
        (ImagesLock_file
           \<lparr>APIVersion = ''imgpkg.carvel.dev/v1alpha1'', Kind = ''ImagesLock'',
            Images = [\<lparr>Image_ir = ''dst.io/app@sha256:aa''\<rparr>,
                      \<lparr>Image_ir = ''dst.io/app@sha256:bb''\<rparr>]\<rparr>)]"
proof -
  have c: "LockOutputFlags_LockFilePath image_with_lock_output = ''out.lock.yml''"
    "LockInputFlags_LockFilePath image_with_lock_output = ''''"
    by (simp_all add: copy_image_to_repo_def image_with_lock_output_def)
  have m: "filter (IsRootBundle world_ok) (All_pi (processed_of [img_a, bundle_unmarked])) = []"
    "filter (IsRootBundle world_ok) (All_pi (processed_of [img_a, img_b])) = []"
    "filter (IsRootBundle world_ok) (All_pi (processed_of [img_unreadable, bundle_unmarked])) = []"
    by (simp_all add: world_ok_def processed_of_def LabelValue_def img_a_def img_b_def
        bundle_unmarked_def img_unreadable_def)
  have a: "All_pi (processed_of [img_a, bundle_unmarked]) = [img_a] @ bundle_unmarked # []"
    "All_pi (processed_of [img_a, img_b]) = [img_a, img_b]"
    "All_pi (processed_of [img_unreadable, bundle_unmarked]) = [] @ img_unreadable # [bundle_unmarked]"
    by (simp_all add: processed_of_def)
  have i: "ImageIndex_pi img_a = None" "ImageIndex_pi bundle_unmarked = None"
    "ImageIndex_pi img_unreadable = None"
    by (simp_all add: img_a_def bundle_unmarked_def img_unreadable_def)
  have g: "DigestRef_pi img_a = ''dst.io/app@sha256:aa''" "DigestRef_pi img_b = ''dst.io/app@sha256:bb''"
    "DigestRef_pi img_unreadable = ''dst.io/app@sha256:a0''"
    by (simp_all add: img_a_def img_b_def img_unreadable_def)
  have d: "detector world_ok img_a = Inr False" "detector world_ok img_b = Inr False"
    "detector world_ok bundle_unmarked = Inr True"
    "detector world_ok img_unreadable = Inl ''manifest unknown''"
    by (simp_all add: world_ok_def NewBundleFromPlainImage_def img_a_def img_b_def
        bundle_unmarked_def img_unreadable_def)
  have w: "ImagesLockAPIVersion world_ok = ''imgpkg.carvel.dev/v1alpha1''"
    "ImagesLockKind world_ok = ''ImagesLock''"
    by (simp_all add: world_ok_def)
  have h1: "LockOutputFlags_LockFilePath image_with_lock_output \<noteq> '''' \<and>
      filter (IsRootBundle world_ok) (All_pi (processed_of [img_a, bundle_unmarked])) = []"
    using m(1) by (simp add: c)
  have h2: "LockOutputFlags_LockFilePath image_with_lock_output \<noteq> '''' \<and>
      filter (IsRootBundle world_ok) (All_pi (processed_of [img_a, img_b])) = []"
    using m(2) by (simp add: c)
  have h3: "LockOutputFlags_LockFilePath image_with_lock_output \<noteq> '''' \<and>
      filter (IsRootBundle world_ok) (All_pi (processed_of [img_unreadable, bundle_unmarked])) = []"
    using m(3) by (simp add: c)
  have reach: "All_pi (processed_of [img_a, bundle_unmarked]) = [img_a] @ bundle_unmarked # [] \<and>
      (\<forall>q \<in> set [img_a]. ImageIndex_pi q \<noteq> None \<or> detector world_ok q = Inr False) \<and>
      ImageIndex_pi bundle_unmarked = None \<and> detector world_ok bundle_unmarked = Inr True"
    using a(1) i(2) d(1,3) by simp
  have fail: "All_pi (processed_of [img_unreadable, bundle_unmarked])
        = [] @ img_unreadable # [bundle_unmarked] \<and>
      (\<forall>q \<in> set []. ImageIndex_pi q \<noteq> None \<or> detector world_ok q = Inr False) \<and>
      ImageIndex_pi img_unreadable = None \<and>
      detector world_ok img_unreadable = Inl ''manifest unknown''"
    using a(3) i(3) d(4) by simp
  have plain: "\<forall>q \<in> set (All_pi (processed_of [img_a, img_b])).
      ImageIndex_pi q = None \<longrightarrow> detector world_ok q = Inr False"
    using d(1,2) by (simp add: a(2))
  note r1 = writeLockOutput_root_bundle_indeterminate [where c = image_with_lock_output
      and w = world_ok and pis = "processed_of [img_a, bundle_unmarked]"
      and before = "[img_a]" and p = bundle_unmarked and rest = "[]",
      THEN mp, OF h1, THEN conjunct1, THEN mp, OF reach]
  note r2 = writeLockOutput_root_bundle_indeterminate [where c = image_with_lock_output
      and w = world_ok and pis = "processed_of [img_unreadable, bundle_unmarked]"
      and before = "[]" and p = img_unreadable and rest = "[bundle_unmarked]"
      and err = "''manifest unknown''",
      THEN mp, OF h3, THEN conjunct2, THEN conjunct1, THEN mp, OF fail]
  note r3 = writeLockOutput_root_bundle_indeterminate [where c = image_with_lock_output
      and w = world_ok and pis = "processed_of [img_a, img_b]",
      THEN mp, OF h2, THEN conjunct2, THEN conjunct2, THEN conjunct2, THEN mp, OF plain]
  note r4 = r3 [THEN conjunct2, THEN mp, OF c(2)]
  have 2: "writeLockOutput world_ok image_with_lock_output
        (processed_of [img_unreadable, bundle_unmarked]) =
     (Return (Some (''Check if '' @ quoted ''dst.io/app@sha256:a0''
                      @ '' is bundle: manifest unknown'')), [])"
    using r2 by (simp add: g(3))
  have 4: "snd (writeLockOutput world_ok image_with_lock_output (processed_of [img_a, img_b])) =
     [WriteToPath_call ''out.lock.yml''
        (ImagesLock_file
           \<lparr>APIVersion = ''imgpkg.carvel.dev/v1alpha1'', Kind = ''ImagesLock'',
            Images = [\<lparr>Image_ir = ''dst.io/app@sha256:aa''\<rparr>,
                      \<lparr>Image_ir = ''dst.io/app@sha256:bb''\<rparr>]\<rparr>)]"
    using r4 by (simp add: c a(2) g w)
  from r1 2 r3 [THEN conjunct1] 4 c(1) m a(1,3) i d show ?thesis by blast
qed

text \<open>
  C4 as stated fails: lock output is requested, no entry carries the marker and
  the second entry is no image index and a bundle for the detector, but the
  detector fails on the first entry; the writer returns that failure and not
  the error about the root bundle.
\<close>

theorem writeLockOutput_indeterminate_counterexample:
  "LockOutputFlags_LockFilePath image_with_lock_output = ''out.lock.yml'' \<and>
   filter (IsRootBundle world_ok) (All_pi (processed_of [img_unreadable, bundle_unmarked])) = [] \<and>
   All_pi (processed_of [img_unreadable, bundle_unmarked]) = [img_unreadable, bundle_unmarked] \<and>
   ImageIndex_pi bundle_unmarked = None \<and>
   detector world_ok bundle_unmarked = Inr True \<and>
   detector world_ok img_unreadable = Inl ''manifest unknown'' \<and>
   writeLockOutput world_ok image_with_lock_output (processed_of [img_unreadable, bundle_unmarked]) =
     (Return (Some (''Check if '' @ quoted ''dst.io/app@sha256:a0''
                      @ '' is bundle: manifest unknown'')), []) \<and>
   writeLockOutput world_ok image_with_lock_output (processed_of [img_unreadable, bundle_unmarked]) \<noteq>
     (Return (Some ''Unable to determine correct root bundle to use for lock-output. hint: if copying from a tarball, try re-generating the tarball''), [])"
  by (simp add: writeLockOutput_def findProcessedImageRootBundle_def
      informUserIfTarballNeedsToBeRecreated_def world_ok_def processed_of_def LabelValue_def
      NewBundleFromPlainImage_def quoted_def img_unreadable_def bundle_unmarked_def
      copy_image_to_repo_def image_with_lock_output_def)

section \<open>Writing the ImagesLock\<close>

text \<open>
  C2.  When the run started from a lock file, read as \<open>lock\<close>: if every entry
  of \<open>lock\<close> is found by \<open>FindByURL\<close> on its image reference, the lock that is
  written is \<open>lock\<close> with the same entries in the same order, the image of each
  replaced by the \<open>DigestRef\<close> of the processed image found for it; if some
  entry is not found, the result is the error "Expected image '...' to have
  been copied but was not" for such an entry and nothing is written.  When the
  run did not start from a lock file, the lock that is written lists the
  \<open>DigestRef\<close> of every processed image in the order of \<open>All()\<close>.  In both
  cases the result of the run is the result of the write.
\<close>

theorem writeImagesLockOutput_entries:
  "(LockInputFlags_LockFilePath c \<noteq> '''' \<and>
    NewImagesLockFromPath w (LockInputFlags_LockFilePath c) = Inr lock \<longrightarrow>
      ((\<forall>entry \<in> set (Images lock).
           FindByURL pis \<lparr>DigestRef = Image_ir entry, Tag = '''', Labels = None, OrigRef = ''''\<rparr>
             \<noteq> None) \<longrightarrow>
         writeImagesLockOutput w c pis =
           (Return (WriteToPath w (LockOutputFlags_LockFilePath c)
              (ImagesLock_file (lock\<lparr>Images :=
                 map (\<lambda>entry. entry\<lparr>Image_ir := DigestRef_pi (the (FindByURL pis
                        \<lparr>DigestRef = Image_ir entry, Tag = '''', Labels = None, OrigRef = ''''\<rparr>))\<rparr>)
                   (Images lock)\<rparr>))),
            [WriteToPath_call (LockOutputFlags_LockFilePath c)
              (ImagesLock_file (lock\<lparr>Images :=
                 map (\<lambda>entry. entry\<lparr>Image_ir := DigestRef_pi (the (FindByURL pis
                        \<lparr>DigestRef = Image_ir entry, Tag = '''', Labels = None, OrigRef = ''''\<rparr>))\<rparr>)
                   (Images lock)\<rparr>))])) \<and>
      ((\<exists>entry \<in> set (Images lock).
           FindByURL pis \<lparr>DigestRef = Image_ir entry, Tag = '''', Labels = None, OrigRef = ''''\<rparr>
             = None) \<longrightarrow>
         (\<exists>entry \<in> set (Images lock).
            FindByURL pis \<lparr>DigestRef = Image_ir entry, Tag = '''', Labels = None, OrigRef = ''''\<rparr>
              = None \<and>
            writeImagesLockOutput w c pis =
              (Return (Some (''Expected image '' @ quoted (Image_ir entry)
                               @ '' to have been copied but was not'')), [])))) \<and>
   (LockInputFlags_LockFilePath c = '''' \<longrightarrow>
      writeImagesLockOutput w c pis =
        (Return (WriteToPath w (LockOutputFlags_LockFilePath c)
           (ImagesLock_file
              \<lparr>APIVersion = ImagesLockAPIVersion w, Kind = ImagesLockKind w,
               Images = map (\<lambda>img. \<lparr>Image_ir = DigestRef_pi img\<rparr>) (All_pi pis)\<rparr>)),
         [WriteToPath_call (LockOutputFlags_LockFilePath c)
           (ImagesLock_file
              \<lparr>APIVersion = ImagesLockAPIVersion w, Kind = ImagesLockKind w,
               Images = map (\<lambda>img. \<lparr>Image_ir = DigestRef_pi img\<rparr>) (All_pi pis)\<rparr>)]))"
proof (intro conjI impI)
  assume a: "LockInputFlags_LockFilePath c \<noteq> '''' \<and>
    NewImagesLockFromPath w (LockInputFlags_LockFilePath c) = Inr lock"
    and f: "\<forall>entry \<in> set (Images lock).
           FindByURL pis \<lparr>DigestRef = Image_ir entry, Tag = '''', Labels = None, OrigRef = ''''\<rparr>
             \<noteq> None"
  from a show "writeImagesLockOutput w c pis =
           (Return (WriteToPath w (LockOutputFlags_LockFilePath c)
              (ImagesLock_file (lock\<lparr>Images :=
                 map (\<lambda>entry. entry\<lparr>Image_ir := DigestRef_pi (the (FindByURL pis
                        \<lparr>DigestRef = Image_ir entry, Tag = '''', Labels = None, OrigRef = ''''\<rparr>))\<rparr>)
                   (Images lock)\<rparr>))),
            [WriteToPath_call (LockOutputFlags_LockFilePath c)
              (ImagesLock_file (lock\<lparr>Images :=
                 map (\<lambda>entry. entry\<lparr>Image_ir := DigestRef_pi (the (FindByURL pis
                        \<lparr>DigestRef = Image_ir entry, Tag = '''', Labels = None, OrigRef = ''''\<rparr>))\<rparr>)
                   (Images lock)\<rparr>))])"
    by (simp add: writeImagesLockOutput_def rewriteImages_found [OF f])
next
  assume a: "LockInputFlags_LockFilePath c \<noteq> '''' \<and>
    NewImagesLockFromPath w (LockInputFlags_LockFilePath c) = Inr lock"
    and m: "\<exists>entry \<in> set (Images lock).
           FindByURL pis \<lparr>DigestRef = Image_ir entry, Tag = '''', Labels = None, OrigRef = ''''\<rparr>
             = None"
  from find_missing [OF m] obtain entry where e: "entry \<in> set (Images lock)"
    "FindByURL pis \<lparr>DigestRef = Image_ir entry, Tag = '''', Labels = None, OrigRef = ''''\<rparr> = None"
    "find (\<lambda>entry. FindByURL pis
            \<lparr>DigestRef = Image_ir entry, Tag = '''', Labels = None, OrigRef = ''''\<rparr> = None)
       (Images lock) = Some entry"
    by blast
  from a have "writeImagesLockOutput w c pis =
      (Return (Some (''Expected image '' @ quoted (Image_ir entry)
                       @ '' to have been copied but was not'')), [])"
    by (simp add: writeImagesLockOutput_def rewriteImages_missing [OF e(3)])
  with e(1,2) show "\<exists>entry \<in> set (Images lock).
            FindByURL pis \<lparr>DigestRef = Image_ir entry, Tag = '''', Labels = None, OrigRef = ''''\<rparr>
              = None \<and>
            writeImagesLockOutput w c pis =
              (Return (Some (''Expected image '' @ quoted (Image_ir entry)
                               @ '' to have been copied but was not'')), [])"
    by blast
next
  assume "LockInputFlags_LockFilePath c = ''''"
  then show "writeImagesLockOutput w c pis =
        (Return (WriteToPath w (LockOutputFlags_LockFilePath c)
           (ImagesLock_file
              \<lparr>APIVersion = ImagesLockAPIVersion w, Kind = ImagesLockKind w,
               Images = map (\<lambda>img. \<lparr>Image_ir = DigestRef_pi img\<rparr>) (All_pi pis)\<rparr>)),
         [WriteToPath_call (LockOutputFlags_LockFilePath c)
           (ImagesLock_file
              \<lparr>APIVersion = ImagesLockAPIVersion w, Kind = ImagesLockKind w,
               Images = map (\<lambda>img. \<lparr>Image_ir = DigestRef_pi img\<rparr>) (All_pi pis)\<rparr>)])"
    by (simp add: writeImagesLockOutput_def Let_def)
qed

theorem writeImagesLockOutput_entries_witness:
  "LockInputFlags_LockFilePath lock_with_lock_output = ''in.lock.yml'' \<and>
   NewImagesLockFromPath world_ok ''in.lock.yml'' =
     Inr \<lparr>APIVersion = ''imgpkg.carvel.dev/v1alpha1'', Kind = ''ImagesLock'',
          Images = [\<lparr>Image_ir = ''src.io/b@sha256:bb''\<rparr>, \<lparr>Image_ir = ''src.io/a@sha256:aa''\<rparr>]\<rparr> \<and>
   writeImagesLockOutput world_ok lock_with_lock_output (processed_of [img_a, img_b]) =
     (Return None,
      [WriteToPath_call ''out.lock.yml''
         (ImagesLock_file
            \<lparr>APIVersion = ''imgpkg.carvel.dev/v1alpha1'', Kind = ''ImagesLock'',
             Images = [\<lparr>Image_ir = ''dst.io/app@sha256:bb''\<rparr>,
                       \<lparr>Image_ir = ''dst.io/app@sha256:aa''\<rparr>]\<rparr>)]) \<and>
   FindByURL (processed_of [img_a])
     \<lparr>DigestRef = ''src.io/b@sha256:bb'', Tag = '''', Labels = None, OrigRef = ''''\<rparr> = None \<and>
   writeImagesLockOutput world_ok lock_with_lock_output (processed_of [img_a]) =
     (Return (Some (''Expected image '' @ quoted ''src.io/b@sha256:bb''
                      @ '' to have been copied but was not'')), []) \<and>
   LockInputFlags_LockFilePath image_with_lock_output = '''' \<and>
   writeImagesLockOutput world_ok image_with_lock_output (processed_of [img_a, img_b]) =
     (Return None,
      [WriteToPath_call ''out.lock.yml''
         (ImagesLock_file
            \<lparr>APIVersion = ''imgpkg.carvel.dev/v1alpha1'', Kind = ''ImagesLock'',
             Images = [\<lparr>Image_ir = ''dst.io/app@sha256:aa''\<rparr>,
                       \<lparr>Image_ir = ''dst.io/app@sha256:bb''\<rparr>]\<rparr>)])"
proof -
  let ?lock = "\<lparr>APIVersion = ''imgpkg.carvel.dev/v1alpha1'', Kind = ''ImagesLock'',
          Images = [\<lparr>Image_ir = ''src.io/b@sha256:bb''\<rparr>, \<lparr>Image_ir = ''src.io/a@sha256:aa''\<rparr>]\<rparr>"
  have c: "LockInputFlags_LockFilePath lock_with_lock_output = ''in.lock.yml''"
    "LockOutputFlags_LockFilePath lock_with_lock_output = ''out.lock.yml''"
    "LockInputFlags_LockFilePath image_with_lock_output = ''''"
    "LockOutputFlags_LockFilePath image_with_lock_output = ''out.lock.yml''"
    by (simp_all add: copy_image_to_repo_def image_with_lock_output_def lock_with_lock_output_def)
  have w: "NewImagesLockFromPath world_ok ''in.lock.yml'' = Inr ?lock"
    "\<And>path lockfile. WriteToPath world_ok path lockfile = None"
    "ImagesLockAPIVersion world_ok = ''imgpkg.carvel.dev/v1alpha1''"
    "ImagesLockKind world_ok = ''ImagesLock''"
    by (simp_all add: world_ok_def)
  have f: "FindByURL (processed_of [img_a, img_b])
       \<lparr>DigestRef = ''src.io/b@sha256:bb'', Tag = '''', Labels = None, OrigRef = ''''\<rparr> = Some img_b"
    "FindByURL (processed_of [img_a, img_b])
       \<lparr>DigestRef = ''src.io/a@sha256:aa'', Tag = '''', Labels = None, OrigRef = ''''\<rparr> = Some img_a"
    "FindByURL (processed_of [img_a])
       \<lparr>DigestRef = ''src.io/b@sha256:bb'', Tag = '''', Labels = None, OrigRef = ''''\<rparr> = None"
    "FindByURL (processed_of [img_a])
       \<lparr>DigestRef = ''src.io/a@sha256:aa'', Tag = '''', Labels = None, OrigRef = ''''\<rparr> = Some img_a"
    "All_pi (processed_of [img_a, img_b]) = [img_a, img_b]"
    by (simp_all add: processed_of_def img_a_def img_b_def)
  have d: "DigestRef_pi img_a = ''dst.io/app@sha256:aa''" "DigestRef_pi img_b = ''dst.io/app@sha256:bb''"
    by (simp_all add: img_a_def img_b_def)
  have 1: "writeImagesLockOutput world_ok lock_with_lock_output (processed_of [img_a, img_b]) =
     (Return None,
      [WriteToPath_call ''out.lock.yml''
         (ImagesLock_file
            \<lparr>APIVersion = ''imgpkg.carvel.dev/v1alpha1'', Kind = ''ImagesLock'',
             Images = [\<lparr>Image_ir = ''dst.io/app@sha256:bb''\<rparr>,
                       \<lparr>Image_ir = ''dst.io/app@sha256:aa''\<rparr>]\<rparr>)])"
    using writeImagesLockOutput_entries [where c = lock_with_lock_output and w = world_ok
        and lock = ?lock and pis = "processed_of [img_a, img_b]"]
    by (simp add: c w f d)
  have 2: "writeImagesLockOutput world_ok lock_with_lock_output (processed_of [img_a]) =
     (Return (Some (''Expected image '' @ quoted ''src.io/b@sha256:bb''
                      @ '' to have been copied but was not'')), [])"
    using writeImagesLockOutput_entries [where c = lock_with_lock_output and w = world_ok
        and lock = ?lock and pis = "processed_of [img_a]"]
    by (simp add: c w f)
  have 3: "writeImagesLockOutput world_ok image_with_lock_output (processed_of [img_a, img_b]) =
     (Return None,
      [WriteToPath_call ''out.lock.yml''
         (ImagesLock_file
            \<lparr>APIVersion = ''imgpkg.carvel.dev/v1alpha1'', Kind = ''ImagesLock'',
             Images = [\<lparr>Image_ir = ''dst.io/app@sha256:aa''\<rparr>,
                       \<lparr>Image_ir = ''dst.io/app@sha256:bb''\<rparr>]\<rparr>)])"
    using writeImagesLockOutput_entries [where c = image_with_lock_output and w = world_ok
        and pis = "processed_of [img_a, img_b]"]
    by (simp add: c w f d)
  from 1 2 3 c w(1) f(3) show ?thesis by simp
qed

end
